theory Spec2Isabelle
  imports Main "HOL-Library.Char_ord" "HOL-Library.List_Lexorder" "HOL-Library.Multiset"
begin

section \<open>JavaScript values and HTTP responses\<close>

text \<open>
  A value of a parsed JSON request body, as far as the handlers inspect it: they test
  presence, truthiness, \<^verbatim>\<open>typeof v === 'string'\<close> and strict equality with a string.
\<close>

datatype jsval = JUndefined | JNull | JBool bool | JNum int | JStr string | JObject

text \<open>JavaScript truthiness (\<^verbatim>\<open>!v\<close> is its negation).\<close>

fun truthy :: "jsval \<Rightarrow> bool" where
  "truthy JUndefined = False"
| "truthy JNull = False"
| "truthy (JBool b) = b"
| "truthy (JNum n) = (n \<noteq> 0)"
| "truthy (JStr s) = (s \<noteq> [])"
| "truthy JObject = True"

text \<open>
  The JSON body a handler sends with \<^verbatim>\<open>res.status(n).json(...)\<close>:
  \<^verbatim>\<open>{error}\<close>, \<^verbatim>\<open>{success, message}\<close>, \<^verbatim>\<open>{success, message, id}\<close>, \<^verbatim>\<open>{isValid}\<close>.
\<close>

datatype body =
    Error string
  | Result bool string
  | ResultId bool string string
  | IsValid bool

type_synonym response = "nat \<times> body"

section \<open>Password check: POST /api/auth/check\<close>

text \<open>
  \<^verbatim>\<open>APP_PASSWORD = process.env.APP_PASSWORD\<close> is a string or undefined; \<open>None\<close> is undefined.
  \<^verbatim>\<open>!APP_PASSWORD\<close> holds for undefined and for the empty string.
\<close>

definition unconfigured :: "string option \<Rightarrow> bool" where
  "unconfigured pw = (case pw of None \<Rightarrow> True | Some s \<Rightarrow> s = [])"

text \<open>
  The handler of server.js, lines 339-357, on the \<^verbatim>\<open>password\<close> member of the request body
  (\<open>JUndefined\<close> when the member is missing). The spreadsheet revision has the same three
  checks in the same order, with German messages.
\<close>

definition authCheck :: "string option \<Rightarrow> jsval \<Rightarrow> response" where
  "authCheck APP_PASSWORD userPassword =
     (if unconfigured APP_PASSWORD then (500, Error ''Server configuration error.'')
      else case userPassword of
             JStr s \<Rightarrow> (200, IsValid (Some s = APP_PASSWORD))
           | _ \<Rightarrow> (400, Error ''Password missing or invalid format.''))"

section \<open>Strings and numbers\<close>

text \<open>
  Strings are lists of code units; a \<^typ>\<open>char\<close> stands for a code unit below 256, which
  covers every character the patterns below inspect. \<^verbatim>\<open>\d\<close> is an ASCII digit.
\<close>

definition isDigit :: "char \<Rightarrow> bool" where
  "isDigit c = (48 \<le> (of_char c :: nat) \<and> (of_char c :: nat) \<le> 57)"

definition isDigits :: "string \<Rightarrow> bool" where
  "isDigits s = list_all isDigit s"

definition digitVal :: "char \<Rightarrow> nat" where
  "digitVal c = of_char c - 48"

text \<open>White space removed by \<^verbatim>\<open>String.prototype.trim\<close>: TAB, LF, VT, FF, CR, SP, NBSP.\<close>

definition isSpace :: "char \<Rightarrow> bool" where
  "isSpace c = ((of_char c :: nat) \<in> {9, 10, 11, 12, 13, 32, 160})"

definition trim :: "string \<Rightarrow> string" where
  "trim s = rev (dropWhile isSpace (rev (dropWhile isSpace s)))"

text \<open>
  \<^verbatim>\<open>parseInt(s, 10)\<close> on a capture group of digits: the value of the leading digits, NaN
  (\<open>None\<close>) when there is none.
\<close>

definition parseInt :: "string \<Rightarrow> nat option" where
  "parseInt s =
     (let ds = takeWhile isDigit s
      in if ds = [] then None else Some (foldl (\<lambda>a c. 10 * a + digitVal c) 0 ds))"

text \<open>Number to string, as string concatenation and template literals do it.\<close>

fun natToString :: "nat \<Rightarrow> string" where
  "natToString n =
     (if n < 10 then [char_of (48 + n)]
      else natToString (n div 10) @ [char_of (48 + n mod 10)])"

declare natToString.simps [simp del]

definition intToString :: "int \<Rightarrow> string" where
  "intToString i = (if i < 0 then CHR ''-'' # natToString (nat (- i)) else natToString (nat i))"

text \<open>\<^verbatim>\<open>s.slice(-2)\<close>: the last two code units, the whole string when it is shorter.\<close>

definition slice_last2 :: "string \<Rightarrow> string" where
  "slice_last2 s = drop (length s - 2) s"

text \<open>\<^verbatim>\<open>('0' + n).slice(-2)\<close>\<close>

definition pad2 :: "nat \<Rightarrow> string" where
  "pad2 n = slice_last2 (CHR ''0'' # natToString n)"

text \<open>\<^verbatim>\<open>s.startsWith(p)\<close>\<close>

definition startsWith :: "string \<Rightarrow> string \<Rightarrow> bool" where
  "startsWith s p = (take (length p) s = p)"

section \<open>Date Normalizer: parseAndFormatDate\<close>

subsection \<open>The three patterns\<close>

text \<open>
  A greedy bounded repetition \<^verbatim>\<open>\d{lo,hi}\<close> at the head of \<open>s\<close>: every way to split off
  between \<open>lo\<close> and \<open>hi\<close> digits, longest first, which is the order in which a backtracking
  matcher tries them.
\<close>

definition digitRun :: "nat \<Rightarrow> nat \<Rightarrow> string \<Rightarrow> (string \<times> string) list" where
  "digitRun lo hi s =
     [(take n s, drop n s). n \<leftarrow> rev [lo..<Suc hi], n \<le> length s \<and> list_all isDigit (take n s)]"

text \<open>A literal character at the head of \<open>s\<close>.\<close>

definition lit :: "char \<Rightarrow> string \<Rightarrow> string list" where
  "lit c s = (case s of [] \<Rightarrow> [] | x # r \<Rightarrow> if x = c then [r] else [])"

definition firstMatch :: "'a list \<Rightarrow> 'a option" where
  "firstMatch ms = (case ms of [] \<Rightarrow> None | m # _ \<Rightarrow> Some m)"

text \<open>\<^verbatim>\<open>/^(\d{1,2})\.(\d{1,2})\.(\d{4})$/\<close>: the capture groups 1, 2, 3.\<close>

definition match_dot :: "string \<Rightarrow> (string \<times> string \<times> string) option" where
  "match_dot s = firstMatch
     [(g1, g2, g3). (g1, r1) \<leftarrow> digitRun 1 2 s, r2 \<leftarrow> lit (CHR ''.'') r1,
                    (g2, r3) \<leftarrow> digitRun 1 2 r2, r4 \<leftarrow> lit (CHR ''.'') r3,
                    (g3, r5) \<leftarrow> digitRun 4 4 r4, r5 = []]"

text \<open>\<^verbatim>\<open>/^(\d{4})-(\d{1,2})-(\d{1,2})/\<close>: no end anchor, anything may follow.\<close>

definition match_iso :: "string \<Rightarrow> (string \<times> string \<times> string) option" where
  "match_iso s = firstMatch
     [(g1, g2, g3). (g1, r1) \<leftarrow> digitRun 4 4 s, r2 \<leftarrow> lit (CHR ''-'') r1,
                    (g2, r3) \<leftarrow> digitRun 1 2 r2, r4 \<leftarrow> lit (CHR ''-'') r3,
                    (g3, r5) \<leftarrow> digitRun 1 2 r4]"

text \<open>\<^verbatim>\<open>/^(\d{1,2})\/(\d{1,2})\/(\d{4})$/\<close>\<close>

definition match_slash :: "string \<Rightarrow> (string \<times> string \<times> string) option" where
  "match_slash s = firstMatch
     [(g1, g2, g3). (g1, r1) \<leftarrow> digitRun 1 2 s, r2 \<leftarrow> lit (CHR ''/'') r1,
                    (g2, r3) \<leftarrow> digitRun 1 2 r2, r4 \<leftarrow> lit (CHR ''/'') r3,
                    (g3, r5) \<leftarrow> digitRun 4 4 r4, r5 = []]"

subsection \<open>Control flow with exceptions\<close>

text \<open>
  How a block of statements ends: it falls through to the next statement, it returns from
  the function, or it throws.
\<close>

datatype 'a completion = Normal | Return 'a | Throw

text \<open>\<^verbatim>\<open>try { c } catch (e) { }\<close>: a throw is swallowed and execution goes on.\<close>

definition try_catch :: "'a completion \<Rightarrow> 'a completion" where
  "try_catch c = (case c of Throw \<Rightarrow> Normal | _ \<Rightarrow> c)"

text \<open>Sequential composition of two statements.\<close>

definition seq :: "'a completion \<Rightarrow> 'a completion \<Rightarrow> 'a completion" where
  "seq c1 c2 = (case c1 of Normal \<Rightarrow> c2 | _ \<Rightarrow> c1)"

subsection \<open>The strategies\<close>

text \<open>\<^verbatim>\<open>`${y}-${('0' + m).slice(-2)}-${('0' + d).slice(-2)}`\<close>\<close>

definition formatYMD :: "nat \<Rightarrow> nat \<Rightarrow> nat \<Rightarrow> string" where
  "formatYMD y m d = natToString y @ ''-'' @ pad2 m @ ''-'' @ pad2 d"

text \<open>
  The body shared by the three numeric forms, on the capture groups for day, month and year:
  a comparison with NaN is false.
\<close>

definition rangeChecked :: "string \<Rightarrow> string \<Rightarrow> string \<Rightarrow> string option completion" where
  "rangeChecked ds ms ys =
     (case (parseInt ds, parseInt ms, parseInt ys) of
        (Some d, Some m, Some y) \<Rightarrow>
          if y > 1900 \<and> m \<ge> 1 \<and> m \<le> 12 \<and> d \<ge> 1 \<and> d \<le> 31
          then Return (Some (formatYMD y m d)) else Normal
      | _ \<Rightarrow> Normal)"

definition tryDot :: "string \<Rightarrow> string option completion" where
  "tryDot s = (case match_dot s of None \<Rightarrow> Normal
               | Some (g1, g2, g3) \<Rightarrow> try_catch (rangeChecked g1 g2 g3))"

definition tryIso :: "string \<Rightarrow> string option completion" where
  "tryIso s = (case match_iso s of None \<Rightarrow> Normal
               | Some (g1, g2, g3) \<Rightarrow> try_catch (rangeChecked g3 g2 g1))"

definition trySlash :: "string \<Rightarrow> string option completion" where
  "trySlash s = (case match_slash s of None \<Rightarrow> Normal
                 | Some (g1, g2, g3) \<Rightarrow> try_catch (rangeChecked g2 g1 g3))"

text \<open>
  \<^verbatim>\<open>new Date(dateStr)\<close> parses by rules of the JavaScript engine, which are not part of
  the repository: the parser is a parameter \<open>newDate\<close>. It yields an invalid date or the
  local-time fields \<^verbatim>\<open>getFullYear()\<close>, \<^verbatim>\<open>getMonth()\<close> (0 to 11) and \<^verbatim>\<open>getDate()\<close>;
  the parameter may also throw, which the surrounding \<^verbatim>\<open>try\<close> covers.
\<close>

datatype jsdate = InvalidDate | ValidDate int nat nat

type_synonym dateParser = "string \<Rightarrow> jsdate completion"

definition tryGeneric :: "dateParser \<Rightarrow> string \<Rightarrow> string option completion" where
  "tryGeneric newDate s =
     try_catch
       (case newDate s of
          Throw \<Rightarrow> Throw
        | Normal \<Rightarrow> Normal
        | Return InvalidDate \<Rightarrow> Normal
        | Return (ValidDate y m d) \<Rightarrow>
            Return (Some (intToString y @ ''-'' @ pad2 (m + 1) @ ''-'' @ pad2 d)))"

text \<open>
  \<^verbatim>\<open>parseAndFormatDate\<close> of the spreadsheet revision, on a string argument; \<open>None\<close> is
  \<^verbatim>\<open>null\<close>. The warning logged before the final \<^verbatim>\<open>return null\<close> is not part of the value.
\<close>

definition parseAndFormatDate :: "dateParser \<Rightarrow> string \<Rightarrow> string option completion" where
  "parseAndFormatDate newDate dateValue =
     (if dateValue = [] then Return None
      else let dateStr = trim dateValue
           in if dateStr = [] then Return None
              else seq (tryDot dateStr)
                  (seq (tryIso dateStr)
                  (seq (trySlash dateStr)
                  (seq (tryGeneric newDate dateStr)
                       (Return None)))))"

section \<open>Listing events: GET /api/events of the spreadsheet revision\<close>

text \<open>
  The column headers, in the order of the sheet. \<open>CHR 0xFC\<close> is the code unit of u-umlaut.
\<close>

definition COLUMN_ORDER :: "string list" where
  "COLUMN_ORDER =
     [''Wann findet der Event statt?'',
      ''Event Titel'',
      ''Wann starter der Event?'',
      ''Wann ist der Event zu Ende?'',
      ''Um was geht es bei dem Event?'',
      ''Welche Ressourcen brauchst du?'',
      ''Wer ist f'' @ [CHR 0xFC] @ ''r den Event Verantwortlich?'',
      ''Event Typ'',
      ''Teilnehmer Info'',
      ''Zeitstempel'']"




text \<open>
  An event object of the response: one property per header of \<open>COLUMN_ORDER\<close>, in that order,
  then \<^verbatim>\<open>sortableDate\<close> (\<open>None\<close> is \<^verbatim>\<open>null\<close>) and \<^verbatim>\<open>rowNum\<close>.
\<close>

record event =
  props :: "(string \<times> string) list"
  sortableDate :: "string option"
  rowNum :: nat















text \<open>
  What the handler sends. The two reads of the sheet are the argument: \<open>None\<close> when a call of
  the Sheets API throws, else the header row (\<open>None\<close> when the response has no values) and the
  data rows. Every failure ends in the \<^verbatim>\<open>catch\<close> with status 500.
\<close>

datatype listing = Listed "event list" | Failed nat


section \<open>Document store, blob store and sessions\<close>

text \<open>
  A stored event is a document: a finite map from field names to values. The handlers
  store strings, timestamps (milliseconds since the epoch) and \<^verbatim>\<open>null\<close>.
\<close>

datatype fvalue = FString string | FTimestamp int | FNull

type_synonym document = "string \<rightharpoonup> fvalue"

text \<open>A saved session: the two properties the login sets and the expiry of its cookie.\<close>

record sessionData =
  authenticated :: bool
  userRole :: "string option"
  cookieExpires :: nat

text \<open>
  The state outside the process: the \<^verbatim>\<open>events\<close> collection by document id, the objects of
  the bucket by name (content and content type), the saved sessions by session id.
\<close>

record world =
  docs :: "string \<rightharpoonup> document"
  blobs :: "string \<rightharpoonup> string \<times> string"
  sessions :: "string \<rightharpoonup> sessionData"

text \<open>
  What one request gets from its environment: the clock (\<^verbatim>\<open>Date.now()\<close>, also the server
  timestamp of a write), the id the store generates for an added document, and which calls
  of the store, the bucket and the session store fail.
\<close>

record env =
  now :: nat
  autoId :: string
  writeStreamFails :: bool
  makePublicFails :: bool
  blobDeleteFails :: bool
  docGetFails :: bool
  docAddFails :: bool
  docUpdateFails :: bool
  docDeleteFails :: bool
  sessionSaveFails :: bool

text \<open>The result of awaiting a promise.\<close>

datatype 'a promised = Resolved 'a | Rejected string

text \<open>An uploaded file as multer hands it over in \<^verbatim>\<open>req.file\<close>.\<close>

record upload =
  originalname :: string
  buffer :: string
  mimetype :: string

text \<open>
  A request as the handlers see it: the session that the session middleware attached, its
  id, the \<^verbatim>\<open>:id\<close> of the path, the text fields of the body (\<open>None\<close> when there is no
  body object) and the uploaded file.
\<close>

record request =
  reqSession :: "sessionData option"
  sessionID :: string
  paramId :: string
  reqBody :: "(string \<times> string) list option"
  reqFile :: "upload option"

section \<open>Blob Store Adapter\<close>

definition GCS_BUCKET_NAME :: string where
  "GCS_BUCKET_NAME = ''ebaplanner_event_images''"

text \<open>\<^verbatim>\<open>originalname.replace(/ /g, '_')\<close>\<close>

definition replaceSpaces :: "string \<Rightarrow> string" where
  "replaceSpaces s = map (\<lambda>c. if c = CHR '' '' then CHR ''_'' else c) s"

text \<open>\<^verbatim>\<open>`${Date.now()}-${originalname.replace(/ /g, '_')}`\<close>\<close>

definition uniqueFilename :: "nat \<Rightarrow> string \<Rightarrow> string" where
  "uniqueFilename dateNow name = natToString dateNow @ ''-'' @ replaceSpaces name"

definition gcsPrefix :: string where
  "gcsPrefix = ''https://storage.googleapis.com/'' @ GCS_BUCKET_NAME @ ''/''"

text \<open>
  \<^verbatim>\<open>uploadToGcs\<close>: the object is written under the generated name, replacing an object of
  that name, then made public. A stream error rejects before anything is written; a failure
  of \<^verbatim>\<open>makePublic\<close> rejects with the object in place. The rejection is given by the fixed
  part of its text, to which the code appends the message of the error.
\<close>

definition uploadToGcs :: "env \<Rightarrow> world \<Rightarrow> upload \<Rightarrow> string promised \<times> world" where
  "uploadToGcs e w f =
     (let blobName = uniqueFilename (now e) (originalname f)
      in if writeStreamFails e then (Rejected ''Error uploading to GCS'', w)
         else let w' = w\<lparr>blobs := (blobs w)(blobName \<mapsto> (buffer f, mimetype f))\<rparr>
              in if makePublicFails e then (Rejected ''Error finalizing GCS upload'', w')
                 else (Resolved (gcsPrefix @ blobName), w'))"

text \<open>What \<^verbatim>\<open>deleteFromGcs\<close> writes to the console.\<close>

datatype logline = Warn string | ErrorLine string | Info string

text \<open>Truthiness of a field value that may be missing (\<open>None\<close> is \<^verbatim>\<open>undefined\<close>).\<close>

definition truthyField :: "fvalue option \<Rightarrow> bool" where
  "truthyField v = (case v of None \<Rightarrow> False | Some FNull \<Rightarrow> False
                    | Some (FString s) \<Rightarrow> s \<noteq> [] | Some (FTimestamp t) \<Rightarrow> True)"

text \<open>
  \<^verbatim>\<open>deleteFromGcs(fileUrl)\<close>, server.js lines 95-116. The prefix test comes before the
  \<^verbatim>\<open>try\<close>; a truthy value that is not a string has no \<^verbatim>\<open>startsWith\<close>, and that call throws
  there. Deleting an object that does not exist fails like any other failed deletion. The
  result is the settled promise, the console output (without the values interpolated into
  the messages) and the new state.
\<close>

definition deleteFromGcs ::
    "env \<Rightarrow> world \<Rightarrow> fvalue option \<Rightarrow> (unit promised \<times> logline list) \<times> world" where
  "deleteFromGcs e w fileUrl =
     (if \<not> truthyField fileUrl
      then ((Resolved (), [Warn ''Invalid or non-matching GCS URL provided for deletion'']), w)
      else case fileUrl of
             Some (FString url) \<Rightarrow>
               if \<not> startsWith url gcsPrefix
               then ((Resolved (), [Warn ''Invalid or non-matching GCS URL provided for deletion'']), w)
               else let fileName = drop (length gcsPrefix) url
                    in if fileName = []
                       then ((Resolved (), [Warn ''Could not extract filename from URL'']), w)
                       else if blobDeleteFails e \<or> blobs w fileName = None
                       then ((Resolved (), [Info ''Attempting to delete GCS object'',
                                            ErrorLine ''Failed to delete GCS object'']), w)
                       else ((Resolved (), [Info ''Attempting to delete GCS object'',
                                            Info ''Successfully deleted GCS object'']),
                             w\<lparr>blobs := (blobs w)(fileName := None)\<rparr>)
           | _ \<Rightarrow> ((Rejected ''TypeError: fileUrl.startsWith is not a function'', []), w))"

section \<open>Event API of the document-store revisions\<close>

definition FIELD_TITLE :: string where "FIELD_TITLE = ''title''"
definition FIELD_DATE :: string where "FIELD_DATE = ''eventDate''"
definition FIELD_START_TIME :: string where "FIELD_START_TIME = ''startTime''"
definition FIELD_END_TIME :: string where "FIELD_END_TIME = ''endTime''"
definition FIELD_DESCRIPTION :: string where "FIELD_DESCRIPTION = ''description''"
definition FIELD_RESOURCES :: string where "FIELD_RESOURCES = ''resources''"
definition FIELD_RESPONSIBLE :: string where "FIELD_RESPONSIBLE = ''responsible''"
definition FIELD_EVENT_TYPE :: string where "FIELD_EVENT_TYPE = ''eventType''"
definition FIELD_PARTICIPANT_INFO :: string where "FIELD_PARTICIPANT_INFO = ''participantInfo''"

text \<open>
  \<^verbatim>\<open>eventData[key]\<close> on the text fields of the body, each key sent once (for a key sent
  several times the upload parser builds an array, which is not modelled).
\<close>

definition bodyField :: "(string \<times> string) list \<Rightarrow> string \<Rightarrow> string option" where
  "bodyField eventData key = map_of eventData key"

text \<open>Truthiness of such a member: present and not the empty string.\<close>

definition given :: "string option \<Rightarrow> bool" where
  "given v = (case v of None \<Rightarrow> False | Some s \<Rightarrow> s \<noteq> [])"

text \<open>\<^verbatim>\<open>v || d\<close>\<close>

definition orElse :: "string option \<Rightarrow> string \<Rightarrow> string" where
  "orElse v d = (case v of None \<Rightarrow> d | Some s \<Rightarrow> if s = [] then d else s)"

text \<open>The default event type, with the code unit of O-umlaut.\<close>

definition defaultEventType :: string where
  "defaultEventType = CHR 0xD6 # ''ffentlich''"

text \<open>
  \<^verbatim>\<open>Timestamp.fromDate(new Date(text + 'T00:00:00Z'))\<close> is computed by the engine's date
  parser and by the store's client library, neither of them code of the repository. The
  conversion is a parameter: it yields the milliseconds of the instant, or \<open>None\<close> when the
  expression throws, which is the case the \<^verbatim>\<open>catch\<close> around it answers.
\<close>

type_synonym dateConversion = "string \<Rightarrow> int option"

text \<open>The nine fields both the create and the update handler take from the body.\<close>

definition textFields :: "(string \<times> string) list \<Rightarrow> int \<Rightarrow> (string \<times> fvalue) list" where
  "textFields eventData eventDateTimestamp =
     [(''title'', FString (orElse (bodyField eventData FIELD_TITLE) [])),
      (''eventDate'', FTimestamp eventDateTimestamp),
      (''startTime'', FString (orElse (bodyField eventData FIELD_START_TIME) [])),
      (''endTime'', FString (orElse (bodyField eventData FIELD_END_TIME) [])),
      (''description'', FString (orElse (bodyField eventData FIELD_DESCRIPTION) [])),
      (''resources'', FString (orElse (bodyField eventData FIELD_RESOURCES) [])),
      (''responsible'', FString (orElse (bodyField eventData FIELD_RESPONSIBLE) [])),
      (''eventType'', FString (orElse (bodyField eventData FIELD_EVENT_TYPE) defaultEventType)),
      (''participantInfo'', FString (orElse (bodyField eventData FIELD_PARTICIPANT_INFO) []))]"

text \<open>
  POST /api/events, server.js lines 151-223 (the handler of the session revision is the
  same). \<open>storeImage\<close> is the upload of lines 174-179, which comes before the date is
  converted. Every rejected promise lands in the \<^verbatim>\<open>catch\<close> of the handler. The store adds
  the document under a generated id that must be unused.
\<close>

definition storeImage :: "env \<Rightarrow> world \<Rightarrow> upload option \<Rightarrow> string option promised \<times> world" where
  "storeImage e w file =
     (case file of
        None \<Rightarrow> (Resolved None, w)
      | Some uploadedFile \<Rightarrow>
          (case uploadToGcs e w uploadedFile of
             (Resolved url, w') \<Rightarrow> (Resolved (Some url), w')
           | (Rejected msg, w') \<Rightarrow> (Rejected msg, w')))"

definition createEvent :: "dateConversion \<Rightarrow> env \<Rightarrow> world \<Rightarrow> request \<Rightarrow> response \<times> world" where
  "createEvent conv e w req =
     (case reqBody req of
        None \<Rightarrow> ((400, Result False ''Title and Date are required fields.''), w)
      | Some eventData \<Rightarrow>
          if \<not> given (bodyField eventData FIELD_TITLE) \<or> \<not> given (bodyField eventData FIELD_DATE)
          then ((400, Result False ''Title and Date are required fields.''), w)
          else
            case storeImage e w (reqFile req) of
              (Rejected msg, w1) \<Rightarrow> ((500, Result False ''Error adding event.''), w1)
            | (Resolved imageUrl, w1) \<Rightarrow>
                if given (bodyField eventData FIELD_DATE)
                then
                  case conv (orElse (bodyField eventData FIELD_DATE) [] @ ''T00:00:00Z'') of
                    None \<Rightarrow> ((400, Result False ''Invalid date format. Please use YYYY-MM-DD.''), w1)
                  | Some eventDateTimestamp \<Rightarrow>
                      let newEvent = map_of
                            (textFields eventData eventDateTimestamp @
                             [(''imageUrl'', case imageUrl of None \<Rightarrow> FNull | Some u \<Rightarrow> FString u),
                              (''createdAt'', FTimestamp (int (now e)))])
                      in if docAddFails e \<or> docs w1 (autoId e) \<noteq> None
                         then ((500, Result False ''Error adding event.''), w1)
                         else ((201, ResultId True ''Event added successfully.'' (autoId e)),
                               w1\<lparr>docs := (docs w1)(autoId e \<mapsto> newEvent)\<rparr>)
                else ((400, Result False ''Date is a required field.''), w1))"

text \<open>
  \<^verbatim>\<open>eventRef.update(payload)\<close> changes the fields the payload names and no other: a value
  is stored, \<^verbatim>\<open>FieldValue.delete()\<close> removes the field.
\<close>

datatype fieldUpdate = SetTo fvalue | DeleteField

fun applyUpdate :: "document \<Rightarrow> (string \<times> fieldUpdate) list \<Rightarrow> document" where
  "applyUpdate d [] = d"
| "applyUpdate d ((k, SetTo v) # payload) = applyUpdate (d(k \<mapsto> v)) payload"
| "applyUpdate d ((k, DeleteField) # payload) = applyUpdate (d(k := None)) payload"

text \<open>
  PUT /api/events/:id of server.js, lines 228-298: a JSON body, no image handling.
\<close>

definition updateEventPlain :: "dateConversion \<Rightarrow> env \<Rightarrow> world \<Rightarrow> request \<Rightarrow> response \<times> world" where
  "updateEventPlain conv e w req =
     (let eventId = paramId req
      in if eventId = [] then ((400, Error ''Event ID missing.''), w)
         else case reqBody req of
           None \<Rightarrow> ((400, Result False ''Invalid data or Title/Date missing.''), w)
         | Some eventData \<Rightarrow>
             if eventData = [] \<or> \<not> given (bodyField eventData FIELD_TITLE)
                \<or> \<not> given (bodyField eventData FIELD_DATE)
             then ((400, Result False ''Invalid data or Title/Date missing.''), w)
             else if docGetFails e then ((500, Result False ''Error updating event.''), w)
             else case docs w eventId of
               None \<Rightarrow> ((404, Result False ''Event not found.''), w)
             | Some doc \<Rightarrow>
                 if given (bodyField eventData FIELD_DATE)
                 then
                   case conv (orElse (bodyField eventData FIELD_DATE) [] @ ''T00:00:00Z'') of
                     None \<Rightarrow> ((400, Result False ''Invalid date format. Please use YYYY-MM-DD.''), w)
                   | Some eventDateTimestamp \<Rightarrow>
                       let updatePayload = map (\<lambda>(k, v). (k, SetTo v)) (textFields eventData eventDateTimestamp)
                       in if docUpdateFails e then ((500, Result False ''Error updating event.''), w)
                          else ((200, Result True ''Event updated successfully.''),
                                w\<lparr>docs := (docs w)(eventId \<mapsto> applyUpdate doc updatePayload)\<rparr>)
                 else ((400, Result False ''Date is a required field.''), w))"

text \<open>
  PUT /api/events/:id of the session revision, lines 161-217, with image replacement.
  \<open>replaceImage\<close> is the block of lines 175-183: \<^verbatim>\<open>imageUrlToUpdate\<close> starts as the stored
  \<^verbatim>\<open>imageUrl\<close> (\<open>None\<close> when the field is missing), and a new file replaces the old object.
  Of the payload only \<^verbatim>\<open>imageUrl\<close> can be undefined, and then the key is dropped; a
  null or empty \<^verbatim>\<open>imageUrl\<close> becomes \<^verbatim>\<open>FieldValue.delete()\<close>.
\<close>

definition imageUpdate :: "fvalue option \<Rightarrow> (string \<times> fieldUpdate) list" where
  "imageUpdate imageUrlToUpdate =
     (case imageUrlToUpdate of
        None \<Rightarrow> []
      | Some v \<Rightarrow> if \<not> truthyField imageUrlToUpdate then [(''imageUrl'', DeleteField)]
                  else [(''imageUrl'', SetTo v)])"

definition replaceImage ::
    "env \<Rightarrow> world \<Rightarrow> document \<Rightarrow> upload option \<Rightarrow> fvalue option promised \<times> world" where
  "replaceImage e w existingData file =
     (case file of
        None \<Rightarrow> (Resolved (existingData ''imageUrl''), w)
      | Some newImageFile \<Rightarrow>
          (case (if truthyField (existingData ''imageUrl'')
                 then deleteFromGcs e w (existingData ''imageUrl'')
                 else ((Resolved (), []), w)) of
             ((Rejected msg, out), w') \<Rightarrow> (Rejected msg, w')
           | ((Resolved u, out), w') \<Rightarrow>
               (case uploadToGcs e w' newImageFile of
                  (Resolved url, w'') \<Rightarrow> (Resolved (Some (FString url)), w'')
                | (Rejected msg, w'') \<Rightarrow> (Rejected msg, w''))))"

definition updateEvent :: "dateConversion \<Rightarrow> env \<Rightarrow> world \<Rightarrow> request \<Rightarrow> response \<times> world" where
  "updateEvent conv e w req =
     (let eventId = paramId req
      in if eventId = [] then ((400, Error ''Event ID missing.''), w)
         else case reqBody req of
           None \<Rightarrow> ((400, Result False ''Invalid data or Title/Date missing.''), w)
         | Some eventData \<Rightarrow>
             if \<not> given (bodyField eventData FIELD_TITLE) \<or> \<not> given (bodyField eventData FIELD_DATE)
             then ((400, Result False ''Invalid data or Title/Date missing.''), w)
             else if docGetFails e then ((500, Result False ''Error updating event.''), w)
             else case docs w eventId of
               None \<Rightarrow> ((404, Result False ''Event not found.''), w)
             | Some existingData \<Rightarrow>
                 case replaceImage e w existingData (reqFile req) of
                   (Rejected msg, w1) \<Rightarrow> ((500, Result False ''Error updating event.''), w1)
                 | (Resolved imageUrlToUpdate, w1) \<Rightarrow>
                     if given (bodyField eventData FIELD_DATE)
                     then
                       case conv (orElse (bodyField eventData FIELD_DATE) [] @ ''T00:00:00Z'') of
                         None \<Rightarrow> ((400, Result False ''Invalid date format. Please use YYYY-MM-DD.''), w1)
                       | Some eventDateTimestamp \<Rightarrow>
                           let updatePayload =
                                 map (\<lambda>(k, v). (k, SetTo v)) (textFields eventData eventDateTimestamp)
                                 @ imageUpdate imageUrlToUpdate
                           in if docUpdateFails e then ((500, Result False ''Error updating event.''), w1)
                              else ((200, Result True ''Event updated successfully.''),
                                    w1\<lparr>docs := (docs w1)(eventId \<mapsto> applyUpdate existingData updatePayload)\<rparr>)
                     else ((400, Result False ''Date is a required field.''), w1))"

text \<open>DELETE /api/events/:id, server.js lines 301-335.\<close>

definition deleteEvent :: "env \<Rightarrow> world \<Rightarrow> request \<Rightarrow> response \<times> world" where
  "deleteEvent e w req =
     (let eventId = paramId req
      in if eventId = [] then ((400, Error ''Event ID missing.''), w)
         else if docGetFails e then ((500, Result False ''Error deleting event.''), w)
         else case docs w eventId of
           None \<Rightarrow> ((404, Result False ''Event not found.''), w)
         | Some eventData \<Rightarrow>
             case (if truthyField (eventData ''imageUrl'')
                   then deleteFromGcs e w (eventData ''imageUrl'')
                   else ((Resolved (), []), w)) of
               ((Rejected msg, out), w1) \<Rightarrow> ((500, Result False ''Error deleting event.''), w1)
             | ((Resolved u, out), w1) \<Rightarrow>
                 if docDeleteFails e then ((500, Result False ''Error deleting event.''), w1)
                 else ((200, Result True ''Event deleted successfully.''),
                       w1\<lparr>docs := (docs w1)(eventId := None)\<rparr>))"


section \<open>Listing events: GET /api/events of the document-store revisions\<close>








section \<open>Session Gate\<close>








text \<open>\<^verbatim>\<open>cookie: { maxAge: 1000 * 60 * 60 }\<close> of the session configuration.\<close>

definition cookieMaxAge :: nat where
  "cookieMaxAge = 1000 * 60 * 60"

text \<open>
  POST /api/login, lines 259-277, on the \<^verbatim>\<open>password\<close> member of the body. On a match the
  session is marked and saved under the id of the request, with a cookie that expires
  \<open>cookieMaxAge\<close> after the request; the empty session of a failed login is not saved
  (\<^verbatim>\<open>saveUninitialized: false\<close>).
\<close>

definition login :: "string option \<Rightarrow> env \<Rightarrow> world \<Rightarrow> string \<Rightarrow> jsval \<Rightarrow> response \<times> world" where
  "login APP_PASSWORD e w sid password =
     (if unconfigured APP_PASSWORD
      then ((500, Result False ''Server configuration error.''), w)
      else if truthy password \<and> (case password of JStr s \<Rightarrow> Some s = APP_PASSWORD | _ \<Rightarrow> False)
      then if sessionSaveFails e
           then ((500, Result False ''Session could not be saved.''), w)
           else ((200, Result True ''Login successful.''),
                 w\<lparr>sessions := (sessions w)(sid \<mapsto>
                      \<lparr>authenticated = True, userRole = Some ''admin'',
                       cookieExpires = now e + cookieMaxAge\<rparr>)\<rparr>)
      else ((401, Result False ''Invalid password.''), w))"

section \<open>Creating events in the spreadsheet revision\<close>

text \<open>
  POST /api/events of the spreadsheet revision, lines 243-286: the body is an object keyed
  by the column headers. The row is built in the order of the columns, the last column
  getting the current instant as text, and appended to the rows of the sheet; \<open>appendFails\<close>
  is a failure of the Sheets API. The message of the answer 500 is the fixed part of the
  message of the handler, which appends the text of the error to it.
\<close>

definition COL_TIMESTAMP :: string where
  "COL_TIMESTAMP = COLUMN_ORDER ! 9"

definition appendEvent ::
    "string \<Rightarrow> bool \<Rightarrow> string list list \<Rightarrow> (string \<times> string) list option \<Rightarrow> response \<times> string list list" where
  "appendEvent nowIso appendFails sheetRows body =
     (case body of
        None \<Rightarrow> ((400, Error (''Ung'' @ [CHR 0xFC] @ ''ltige oder fehlende Event-Daten im Request Body.'')), sheetRows)
      | Some eventData \<Rightarrow>
          if eventData = []
          then ((400, Error (''Ung'' @ [CHR 0xFC] @ ''ltige oder fehlende Event-Daten im Request Body.'')), sheetRows)
          else let newRow = map (\<lambda>columnName.
                                   if columnName = COL_TIMESTAMP then nowIso
                                   else case map_of eventData columnName of
                                          None \<Rightarrow> [] | Some v \<Rightarrow> v)
                                COLUMN_ORDER
               in if appendFails
                  then ((500, Result False (''Fehler beim Hinzuf'' @ [CHR 0xFC] @ ''gen des Events.'')), sheetRows)
                  else ((201, Result True (''Event erfolgreich hinzugef'' @ [CHR 0xFC] @ ''gt.'')),
                        sheetRows @ [newRow]))"

section \<open>The fields an update writes, and example data\<close>


text \<open>
  An environment in which no call fails, a request without session, a stored event with an
  image, and a state that holds this event and its image.
\<close>

definition calmEnv :: env where
  "calmEnv = \<lparr>now = 5000, autoId = ''e2'', writeStreamFails = False, makePublicFails = False,
              blobDeleteFails = False, docGetFails = False, docAddFails = False,
              docUpdateFails = False, docDeleteFails = False, sessionSaveFails = False\<rparr>"

definition meetingRequest :: request where
  "meetingRequest = \<lparr>reqSession = None, sessionID = ''s1'', paramId = ''e1'',
                     reqBody = Some [(''title'', ''Meeting''), (''eventDate'', ''2025-06-01''),
                                     (''startTime'', ''10:00'')],
                     reqFile = None\<rparr>"

definition storedEvent :: document where
  "storedEvent = map_of [(''title'', FString ''Party''), (''eventDate'', FTimestamp 1000),
                         (''imageUrl'', FString (gcsPrefix @ ''1000-old.png'')),
                         (''createdAt'', FTimestamp 1000)]"

definition someWorld :: world where
  "someWorld = \<lparr>docs = Map.empty(''e1'' \<mapsto> storedEvent),
                blobs = Map.empty(''1000-old.png'' \<mapsto> (''old'', ''image/png'')),
                sessions = Map.empty\<rparr>"




text \<open>A date conversion that accepts one date text, and the generic parser that accepts none.\<close>

definition juneOnly :: dateConversion where
  "juneOnly s = (if s = ''2025-06-01T00:00:00Z'' then Some 1748736000000 else None)"

definition neverValid :: dateParser where
  "neverValid s = Return InvalidDate"







section \<open>Auxiliary predicates of the proofs\<close>

text \<open>
  Two predicates used in the proofs: a string starts with one or two digits and the
  separator \<open>c\<close>; a string starts with four digits.
\<close>

definition sepAt :: "char \<Rightarrow> string \<Rightarrow> bool" where
  "sepAt c s = ((\<exists>a r. s = a # c # r \<and> isDigit a) \<or> (\<exists>a b r. s = a # b # c # r \<and> isDigit a \<and> isDigit b))"

definition fourDigits :: "string \<Rightarrow> bool" where
  "fourDigits s = (\<exists>a b c d r. s = a # b # c # d # r \<and> isDigit a \<and> isDigit b \<and> isDigit c \<and> isDigit d)"

text \<open>
  A text that writes the day \<open>D\<close>, the month \<open>M\<close> and the year \<open>Y\<close> in one of the three numeric
  forms, and digit strings of a day, a month and a year with values inside the ranges that
  the Date Normalizer checks.
\<close>

definition numericForm :: "string \<Rightarrow> string \<Rightarrow> string \<Rightarrow> string \<Rightarrow> bool" where
  "numericForm s D M Y =
     (s = D @ ''.'' @ M @ ''.'' @ Y \<or> s = Y @ ''-'' @ M @ ''-'' @ D \<or> s = M @ ''/'' @ D @ ''/'' @ Y)"

definition inRange :: "string \<Rightarrow> string \<Rightarrow> string \<Rightarrow> nat \<Rightarrow> nat \<Rightarrow> nat \<Rightarrow> bool" where
  "inRange D M Y d m y =
     (isDigits D \<and> (length D = 1 \<or> length D = 2) \<and> parseInt D = Some d \<and> 1 \<le> d \<and> d \<le> 31
    \<and> isDigits M \<and> (length M = 1 \<or> length M = 2) \<and> parseInt M = Some m \<and> 1 \<le> m \<and> m \<le> 12
    \<and> isDigits Y \<and> length Y = 4 \<and> parseInt Y = Some y \<and> 1900 < y)"


text \<open>The character of a decimal digit.\<close>

definition digitChar :: "nat \<Rightarrow> char" where "digitChar k = char_of (48 + k)"

section \<open>Properties\<close>

subsection \<open>Date Normalizer\<close>


lemma not_digit_sep [simp]:
  "\<not> isDigit (CHR ''.'')" "\<not> isDigit (CHR ''-'')" "\<not> isDigit (CHR ''/'')"
  by (simp_all add: isDigit_def)

lemma digitRun_1_2_simps:
  "digitRun (Suc 0) 2 [] = []"
  "digitRun (Suc 0) 2 [a] = (if isDigit a then [([a], [])] else [])"
  "digitRun (Suc 0) 2 (a # b # r) =
     (if isDigit a \<and> isDigit b then [([a, b], r)] else []) @
     (if isDigit a then [([a], b # r)] else [])"
  by (simp_all add: digitRun_def upt_rec eval_nat_numeral)

lemma digitRun_4_4_simps:
  "length s < 4 \<Longrightarrow> digitRun 4 4 s = []"
  "digitRun 4 4 (a # b # c # d # r) =
     (if isDigit a \<and> isDigit b \<and> isDigit c \<and> isDigit d then [([a, b, c, d], r)] else [])"
  by (simp_all add: digitRun_def upt_rec eval_nat_numeral)

lemma lit_simps [simp]:
  "lit c [] = []" "lit c (x # r) = (if x = c then [r] else [])"
  by (simp_all add: lit_def)

lemma len12_cases: "length xs = 1 \<or> length xs = 2 \<Longrightarrow> (\<exists>a. xs = [a]) \<or> (\<exists>a b. xs = [a, b])"
  by (cases xs; cases "tl xs"; cases "tl (tl xs)") auto

lemma len4_cases: "length xs = 4 \<Longrightarrow> \<exists>a b c d. xs = [a, b, c, d]"
  by (cases xs; cases "tl xs"; cases "tl (tl xs)"; cases "tl (tl (tl xs))"; cases "tl (tl (tl (tl xs)))") auto

text \<open>A run of one or two digits in front of a separator.\<close>

lemma digitRun_sep:
  assumes "isDigits ds" "length ds = 1 \<or> length ds = 2" "\<not> isDigit c"
  shows "\<exists>rest. digitRun (Suc 0) 2 (ds @ c # r) = (ds, c # r) # rest \<and> (\<forall>(g, r') \<in> set rest. lit c r' = [])"
  using len12_cases [OF assms(2)] assms(1,3)
  by (auto simp: digitRun_1_2_simps isDigits_def)

lemma digitRun_end:
  assumes "isDigits ds" "length ds = 1 \<or> length ds = 2"
  shows "\<exists>rest. digitRun (Suc 0) 2 ds = (ds, []) # rest"
  using len12_cases [OF assms(2)] assms(1)
  by (auto simp: digitRun_1_2_simps isDigits_def)

lemma digitRun_year:
  assumes "isDigits ys" "length ys = 4"
  shows "digitRun 4 4 (ys @ r) = [(ys, r)]"
  using len4_cases [OF assms(2)] assms(1)
  by (auto simp: digitRun_4_4_simps isDigits_def)

lemma match_dot_dot:
  assumes "isDigits ds" "length ds = 1 \<or> length ds = 2"
      and "isDigits ms" "length ms = 1 \<or> length ms = 2"
      and "isDigits ys" "length ys = 4"
  shows "match_dot (ds @ ''.'' @ ms @ ''.'' @ ys) = Some (ds, ms, ys)"
proof -
  obtain r1 where r1: "digitRun (Suc 0) 2 (ds @ CHR ''.'' # ms @ CHR ''.'' # ys) = (ds, CHR ''.'' # ms @ CHR ''.'' # ys) # r1"
    using digitRun_sep [OF assms(1,2), of "CHR ''.''"] by auto
  obtain r2 where r2: "digitRun (Suc 0) 2 (ms @ CHR ''.'' # ys) = (ms, CHR ''.'' # ys) # r2"
    using digitRun_sep [OF assms(3,4), of "CHR ''.''"] by auto
  have r3: "digitRun 4 4 ys = [(ys, [])]"
    using digitRun_year [OF assms(5,6), of "[]"] by simp
  show ?thesis
    by (simp add: match_dot_def r1 r2 r3 firstMatch_def)
qed

lemma digitRun_lit:
  assumes "(g, r) \<in> set (digitRun (Suc 0) 2 s)" "lit c r \<noteq> []"
  shows "sepAt c s"
proof (cases s)
  case Nil
  with assms show ?thesis by (simp add: digitRun_1_2_simps)
next
  case (Cons a s1)
  show ?thesis
  proof (cases s1)
    case Nil
    with Cons assms show ?thesis by (auto simp: digitRun_1_2_simps split: if_splits)
  next
    case (Cons b s2)
    with \<open>s = a # s1\<close> assms show ?thesis
      by (cases s2) (auto simp: digitRun_1_2_simps sepAt_def split: if_splits)
  qed
qed

lemma digitRun4_mem: "(g, r) \<in> set (digitRun 4 4 s) \<Longrightarrow> fourDigits s"
  by (cases s; cases "tl s"; cases "tl (tl s)"; cases "tl (tl (tl s))")
     (auto simp: digitRun_4_4_simps fourDigits_def split: if_splits)

lemma firstMatch_Some: "firstMatch xs = Some x \<Longrightarrow> xs \<noteq> []"
  by (auto simp: firstMatch_def)

lemma bind_nonempty: "concat (map f xs) \<noteq> [] \<Longrightarrow> \<exists>x \<in> set xs. f x \<noteq> []"
  by auto

lemma bind_lit:
  "concat (map (\<lambda>(g, r). concat (map (h g) (lit c r))) xs) \<noteq> [] \<Longrightarrow>
   \<exists>(g, r) \<in> set xs. lit c r \<noteq> []"
proof -
  assume "concat (map (\<lambda>(g, r). concat (map (h g) (lit c r))) xs) \<noteq> []"
  then obtain x where x: "x \<in> set xs" "(case x of (g, r) \<Rightarrow> concat (map (h g) (lit c r))) \<noteq> []"
    by auto
  obtain g r where gr: "x = (g, r)" by (cases x)
  with x have "lit c r \<noteq> []" by auto
  with x gr show ?thesis by blast
qed

lemma match_dot_head: assumes "match_dot s = Some g" shows "sepAt (CHR ''.'') s"
proof -
  have "\<exists>(g, r) \<in> set (digitRun 1 2 s). lit (CHR ''.'') r \<noteq> []"
    by (rule bind_lit, rule firstMatch_Some, rule assms [unfolded match_dot_def])
  then show ?thesis by (auto dest: digitRun_lit)
qed

lemma match_slash_head: assumes "match_slash s = Some g" shows "sepAt (CHR ''/'') s"
proof -
  have "\<exists>(g, r) \<in> set (digitRun 1 2 s). lit (CHR ''/'') r \<noteq> []"
    by (rule bind_lit, rule firstMatch_Some, rule assms [unfolded match_slash_def])
  then show ?thesis by (auto dest: digitRun_lit)
qed

lemma match_iso_head: assumes "match_iso s = Some g" shows "fourDigits s"
proof -
  from assms have "digitRun 4 4 s \<noteq> []"
    unfolding match_iso_def by (auto dest!: firstMatch_Some)
  then obtain g1 r1 where "(g1, r1) \<in> set (digitRun 4 4 s)"
    by (cases "digitRun 4 4 s") auto
  then show ?thesis by (rule digitRun4_mem)
qed

lemma sepAt_not_fourDigits: "sepAt c s \<Longrightarrow> \<not> isDigit c \<Longrightarrow> \<not> fourDigits s"
  by (auto simp: sepAt_def fourDigits_def)

lemma sepAt_unique: "sepAt c s \<Longrightarrow> sepAt c' s \<Longrightarrow> \<not> isDigit c \<Longrightarrow> \<not> isDigit c' \<Longrightarrow> c = c'"
  by (auto simp: sepAt_def)

lemma digit_not_space: "isDigit c \<Longrightarrow> \<not> isSpace c"
  by (auto simp: isDigit_def isSpace_def)

lemma trim_id: "s \<noteq> [] \<Longrightarrow> \<not> isSpace (hd s) \<Longrightarrow> \<not> isSpace (last s) \<Longrightarrow> trim s = s"
proof -
  assume a: "s \<noteq> []" "\<not> isSpace (hd s)" "\<not> isSpace (last s)"
  then have 1: "dropWhile isSpace s = s" by (cases s) auto
  from a have "rev s \<noteq> []" "\<not> isSpace (hd (rev s))" by (simp_all add: hd_rev)
  then have 2: "dropWhile isSpace (rev s) = rev s" by (cases "rev s") auto
  show ?thesis by (simp add: trim_def 1 2)
qed

lemma isDigits_hd_last: "isDigits s \<Longrightarrow> s \<noteq> [] \<Longrightarrow> isDigit (hd s) \<and> isDigit (last s)"
  by (simp add: isDigits_def list_all_iff)

lemma match_iso_iso:
  assumes "isDigits ds" "length ds = 1 \<or> length ds = 2"
      and "isDigits ms" "length ms = 1 \<or> length ms = 2"
      and "isDigits ys" "length ys = 4"
  shows "match_iso (ys @ ''-'' @ ms @ ''-'' @ ds) = Some (ys, ms, ds)"
proof -
  have r1: "digitRun 4 4 (ys @ CHR ''-'' # ms @ CHR ''-'' # ds) = [(ys, CHR ''-'' # ms @ CHR ''-'' # ds)]"
    by (rule digitRun_year [OF assms(5,6)])
  obtain r2 where r2: "digitRun (Suc 0) 2 (ms @ CHR ''-'' # ds) = (ms, CHR ''-'' # ds) # r2"
    using digitRun_sep [OF assms(3,4), of "CHR ''-''"] by auto
  obtain r3 where r3: "digitRun (Suc 0) 2 ds = (ds, []) # r3"
    using digitRun_end [OF assms(1,2)] by auto
  show ?thesis
    by (simp add: match_iso_def r1 r2 r3 firstMatch_def)
qed

lemma match_slash_slash:
  assumes "isDigits ds" "length ds = 1 \<or> length ds = 2"
      and "isDigits ms" "length ms = 1 \<or> length ms = 2"
      and "isDigits ys" "length ys = 4"
  shows "match_slash (ms @ ''/'' @ ds @ ''/'' @ ys) = Some (ms, ds, ys)"
proof -
  obtain r1 where r1: "digitRun (Suc 0) 2 (ms @ CHR ''/'' # ds @ CHR ''/'' # ys) = (ms, CHR ''/'' # ds @ CHR ''/'' # ys) # r1"
    using digitRun_sep [OF assms(3,4), of "CHR ''/''"] by auto
  obtain r2 where r2: "digitRun (Suc 0) 2 (ds @ CHR ''/'' # ys) = (ds, CHR ''/'' # ys) # r2"
    using digitRun_sep [OF assms(1,2), of "CHR ''/''"] by auto
  have r3: "digitRun 4 4 ys = [(ys, [])]"
    using digitRun_year [OF assms(5,6), of "[]"] by simp
  show ?thesis
    by (simp add: match_slash_def r1 r2 r3 firstMatch_def)
qed

lemma dot_not_slash: "sepAt (CHR ''.'') s \<Longrightarrow> \<not> sepAt (CHR ''/'') s"
  by (auto simp: sepAt_def)

lemma dot_excl: assumes "match_dot s = Some g" shows "match_iso s = None \<and> match_slash s = None"
proof -
  from assms have d: "sepAt (CHR ''.'') s" by (rule match_dot_head)
  have "match_iso s = None"
  proof (cases "match_iso s")
    case (Some h)
    then have "fourDigits s" by (rule match_iso_head)
    with sepAt_not_fourDigits [OF d] show ?thesis by simp
  qed simp
  moreover have "match_slash s = None"
  proof (cases "match_slash s")
    case (Some h)
    then have "sepAt (CHR ''/'') s" by (rule match_slash_head)
    with dot_not_slash [OF d] show ?thesis by simp
  qed simp
  ultimately show ?thesis by simp
qed

lemma slash_excl: assumes "match_slash s = Some g" shows "match_dot s = None \<and> match_iso s = None"
proof -
  from assms have d: "sepAt (CHR ''/'') s" by (rule match_slash_head)
  have "match_iso s = None"
  proof (cases "match_iso s")
    case (Some h)
    then have "fourDigits s" by (rule match_iso_head)
    with sepAt_not_fourDigits [OF d] show ?thesis by simp
  qed simp
  moreover have "match_dot s = None"
  proof (cases "match_dot s")
    case (Some h)
    with assms dot_excl [of s h] show ?thesis by simp
  qed simp
  ultimately show ?thesis by simp
qed

lemma iso_excl: assumes "match_iso s = Some g" shows "match_dot s = None \<and> match_slash s = None"
proof -
  have "match_dot s = None"
  proof (cases "match_dot s")
    case (Some h)
    with assms dot_excl [of s h] show ?thesis by simp
  qed simp
  moreover have "match_slash s = None"
  proof (cases "match_slash s")
    case (Some h)
    with assms slash_excl [of s h] show ?thesis by simp
  qed simp
  ultimately show ?thesis by simp
qed

lemma seq_simps [simp]:
  "seq Normal c = c" "seq (Return r) c = Return r" "seq Throw c = Throw"
  by (simp_all add: seq_def)

lemma try_catch_simps [simp]:
  "try_catch Normal = Normal" "try_catch (Return r) = Return r" "try_catch Throw = Normal"
  by (simp_all add: try_catch_def)

lemma rangeChecked_not_Throw [simp]: "rangeChecked a b c \<noteq> Throw"
  by (simp add: rangeChecked_def split: option.splits)

lemma tryGeneric_not_Throw [simp]: "tryGeneric nd s \<noteq> Throw"
  by (simp add: tryGeneric_def split: completion.splits jsdate.splits)

lemma try_not_Throw [simp]: "tryDot s \<noteq> Throw" "tryIso s \<noteq> Throw" "trySlash s \<noteq> Throw"
  by (auto simp: tryDot_def tryIso_def trySlash_def try_catch_def split: option.splits completion.splits)

lemma natToString_nonempty: "natToString n \<noteq> []"
  by (subst natToString.simps) simp

lemma length_pad2: "length (pad2 n) = 2"
proof -
  have "2 \<le> length (CHR ''0'' # natToString n)"
    using natToString_nonempty [of n] by (cases "natToString n") simp_all
  then show ?thesis by (simp add: pad2_def slice_last2_def)
qed

lemma length_natToString4: "1000 \<le> y \<Longrightarrow> y < 10000 \<Longrightarrow> length (natToString y) = 4"
proof -
  assume a: "1000 \<le> y" "y < 10000"
  then have b: "\<not> y < 10" "\<not> y div 10 < 10" "\<not> y div 10 div 10 < 10" "y div 10 div 10 div 10 < 10"
    by arith+
  show ?thesis
    by (simp add: natToString.simps [of y] natToString.simps [of "y div 10"]
        natToString.simps [of "y div 10 div 10"] natToString.simps [of "y div 10 div 10 div 10"] b)
qed

lemma digitVal_le: "isDigit c \<Longrightarrow> digitVal c \<le> 9"
  by (auto simp: isDigit_def digitVal_def)

lemma parseInt_digits: "isDigits s \<Longrightarrow> parseInt s = (if s = [] then None else Some (foldl (\<lambda>a c. 10 * a + digitVal c) 0 s))"
proof -
  assume "isDigits s"
  then have tw: "takeWhile isDigit s = s" by (simp add: isDigits_def list_all_iff)
  show ?thesis unfolding parseInt_def Let_def tw by simp
qed

lemma year_bound:
  assumes "isDigits Y" "length Y = 4" "parseInt Y = Some y"
  shows "y < 10000"
proof -
  from len4_cases [OF assms(2)] obtain a b c e where Y: "Y = [a, b, c, e]" by blast
  with assms(1) have "isDigit a" "isDigit b" "isDigit c" "isDigit e" by (simp_all add: isDigits_def)
  then have "digitVal a \<le> 9" "digitVal b \<le> 9" "digitVal c \<le> 9" "digitVal e \<le> 9"
    by (simp_all add: digitVal_le)
  moreover from assms(1,3) Y have "y = 10 * (10 * (10 * digitVal a + digitVal b) + digitVal c) + digitVal e"
    by (simp add: parseInt_digits)
  ultimately show ?thesis by simp
qed

lemma parse_returns: "\<exists>r. parseAndFormatDate newDate v = Return r"
proof -
  have g: "\<exists>r. seq (tryGeneric newDate s) (Return None) = Return r" for s
    by (cases "tryGeneric newDate s") simp_all
  have sl: "\<exists>r. seq (trySlash s) (seq (tryGeneric newDate s) (Return None)) = Return r" for s
    using g [of s] by (cases "trySlash s") simp_all
  have iso: "\<exists>r. seq (tryIso s) (seq (trySlash s) (seq (tryGeneric newDate s) (Return None))) = Return r" for s
    using sl [of s] by (cases "tryIso s") simp_all
  have dot: "\<exists>r. seq (tryDot s) (seq (tryIso s) (seq (trySlash s) (seq (tryGeneric newDate s) (Return None)))) = Return r" for s
    using iso [of s] by (cases "tryDot s") simp_all
  show ?thesis
    using dot [of "trim v"] by (simp add: parseAndFormatDate_def Let_def)
qed

lemma range_fail_falls_through:
  assumes "v \<noteq> []" "trim v \<noteq> []"
      and "match_dot (trim v) = Some (g1, g2, g3) \<and> rangeChecked g1 g2 g3 = Normal
         \<or> match_iso (trim v) = Some (g1, g2, g3) \<and> rangeChecked g3 g2 g1 = Normal
         \<or> match_slash (trim v) = Some (g1, g2, g3) \<and> rangeChecked g2 g1 g3 = Normal"
  shows "parseAndFormatDate newDate v = seq (tryGeneric newDate (trim v)) (Return None)"
proof -
  from assms(3) have "tryDot (trim v) = Normal \<and> tryIso (trim v) = Normal \<and> trySlash (trim v) = Normal"
  proof (elim disjE conjE)
    assume m: "match_dot (trim v) = Some (g1, g2, g3)" and r: "rangeChecked g1 g2 g3 = Normal"
    with dot_excl [OF m] show ?thesis by (simp add: tryDot_def tryIso_def trySlash_def)
  next
    assume m: "match_iso (trim v) = Some (g1, g2, g3)" and r: "rangeChecked g3 g2 g1 = Normal"
    with iso_excl [OF m] show ?thesis by (simp add: tryDot_def tryIso_def trySlash_def)
  next
    assume m: "match_slash (trim v) = Some (g1, g2, g3)" and r: "rangeChecked g2 g1 g3 = Normal"
    with slash_excl [OF m] show ?thesis by (simp add: tryDot_def tryIso_def trySlash_def)
  qed
  with assms(1,2) show ?thesis by (simp add: parseAndFormatDate_def Let_def)
qed

lemma rangeChecked_Normal:
  "rangeChecked ds ms ys = Normal \<longleftrightarrow>
   \<not> (\<exists>d m y. parseInt ds = Some d \<and> parseInt ms = Some m \<and> parseInt ys = Some y
              \<and> 1900 < y \<and> 1 \<le> m \<and> m \<le> 12 \<and> 1 \<le> d \<and> d \<le> 31)"
  by (auto simp: rangeChecked_def split: option.splits)

lemma all_fail_null:
  assumes "tryDot (trim v) = Normal" "tryIso (trim v) = Normal" "trySlash (trim v) = Normal"
      and "tryGeneric newDate (trim v) = Normal"
  shows "parseAndFormatDate newDate v = Return None"
  using assms by (simp add: parseAndFormatDate_def Let_def)

lemma tryGeneric_Normal:
  "tryGeneric newDate s = Normal \<longleftrightarrow> (\<forall>y m d. newDate s \<noteq> Return (ValidDate y m d))"
  by (auto simp: tryGeneric_def split: completion.splits jsdate.splits)



lemma digitChar_0: "CHR ''0'' = digitChar 0"
  unfolding digitChar_def by code_simp

lemma natToString_1: "n < 10 \<Longrightarrow> natToString n = [digitChar n]"
  by (simp add: natToString.simps [of n] digitChar_def)

lemma natToString_more: "\<not> n < 10 \<Longrightarrow> natToString n = natToString (n div 10) @ [digitChar (n mod 10)]"
  by (simp add: natToString.simps [of n] digitChar_def)

lemma div10_less: "(n::nat) < 10 * k \<Longrightarrow> n div 10 < k"
  by arith

lemma div10_ge: "10 * k \<le> (n::nat) \<Longrightarrow> k \<le> n div 10"
  by arith

lemma natToString_4:
  assumes "1000 \<le> y" "y < 10000"
  shows "natToString y = [digitChar (y div 10 div 10 div 10), digitChar (y div 10 div 10 mod 10),
                          digitChar (y div 10 mod 10), digitChar (y mod 10)]"
proof -
  from assms have "y div 10 < 1000" "100 \<le> y div 10"
    by (simp_all add: div10_less div10_ge)
  then have "y div 10 div 10 < 100" "10 \<le> y div 10 div 10"
    by (simp_all add: div10_less div10_ge)
  then have "y div 10 div 10 div 10 < 10"
    by (simp add: div10_less)
  with assms \<open>100 \<le> y div 10\<close> \<open>10 \<le> y div 10 div 10\<close>
  have b: "\<not> y < 10" "\<not> y div 10 < 10" "\<not> y div 10 div 10 < 10" "y div 10 div 10 div 10 < 10"
    by simp_all
  have "natToString y = natToString (y div 10) @ [digitChar (y mod 10)]"
    by (rule natToString_more [OF b(1)])
  also have "natToString (y div 10) = natToString (y div 10 div 10) @ [digitChar (y div 10 mod 10)]"
    by (rule natToString_more [OF b(2)])
  also have "natToString (y div 10 div 10)
      = natToString (y div 10 div 10 div 10) @ [digitChar (y div 10 div 10 mod 10)]"
    by (rule natToString_more [OF b(3)])
  also have "natToString (y div 10 div 10 div 10) = [digitChar (y div 10 div 10 div 10)]"
    by (rule natToString_1 [OF b(4)])
  finally show ?thesis by simp
qed

lemma pad2_2:
  assumes "m < 100"
  shows "pad2 m = [digitChar (m div 10), digitChar (m mod 10)]"
proof (cases "m < 10")
  case True
  then show ?thesis
    by (simp add: pad2_def slice_last2_def natToString_1 digitChar_0)
next
  case False
  with assms have "m div 10 < 10" by (simp add: div10_less)
  with False show ?thesis
    by (simp add: pad2_def slice_last2_def natToString_more natToString_1)
qed





text \<open>A rendered number read back: the digits that were parsed.\<close>

lemma digitChar_digitVal: "isDigit c \<Longrightarrow> digitChar (digitVal c) = c"
  by (simp add: digitChar_def digitVal_def isDigit_def)

lemma digitVal_lt: "isDigit c \<Longrightarrow> digitVal c < 10"
  by (auto simp: isDigit_def digitVal_def)

lemma div_mod_digits:
  fixes n v :: nat
  assumes "v < 10"
  shows "(10 * n + v) div 10 = n" "(10 * n + v) mod 10 = v"
  using assms by simp_all

lemma year_roundtrip:
  assumes "isDigits Y" "length Y = 4" "parseInt Y = Some y" "1000 \<le> y"
  shows "natToString y = Y"
proof -
  from len4_cases [OF assms(2)] obtain a b c e where Y: "Y = [a, b, c, e]" by blast
  with assms(1) have dg: "isDigit a" "isDigit b" "isDigit c" "isDigit e" by (simp_all add: isDigits_def)
  then have lt: "digitVal a < 10" "digitVal b < 10" "digitVal c < 10" "digitVal e < 10"
    by (simp_all add: digitVal_lt)
  from assms(1,3) Y have y: "y = 10 * (10 * (10 * digitVal a + digitVal b) + digitVal c) + digitVal e"
    by (simp add: parseInt_digits)
  define n1 n2 where "n1 = 10 * digitVal a + digitVal b" and "n2 = 10 * n1 + digitVal c"
  have y2: "y = 10 * n2 + digitVal e" unfolding y n1_def n2_def ..
  have s1: "y div 10 = n2" "y mod 10 = digitVal e"
    unfolding y2 by (rule div_mod_digits [OF lt(4)])+
  have s2: "n2 div 10 = n1" "n2 mod 10 = digitVal c"
    unfolding n2_def by (rule div_mod_digits [OF lt(3)])+
  have s3: "n1 div 10 = digitVal a" "n1 mod 10 = digitVal b"
    unfolding n1_def by (rule div_mod_digits [OF lt(2)])+
  have d: "y mod 10 = digitVal e" "y div 10 mod 10 = digitVal c" "y div 10 div 10 mod 10 = digitVal b"
    "y div 10 div 10 div 10 = digitVal a"
    by (simp_all only: s1 s2 s3)
  from year_bound [OF assms(1-3)] assms(4)
  have "natToString y = [digitChar (y div 10 div 10 div 10), digitChar (y div 10 div 10 mod 10),
                          digitChar (y div 10 mod 10), digitChar (y mod 10)]"
    by (intro natToString_4) simp_all
  then show ?thesis unfolding d Y using dg by (simp add: digitChar_digitVal)
qed

lemma pad_roundtrip:
  assumes "isDigits M" "length M = 1 \<or> length M = 2" "parseInt M = Some m"
  shows "pad2 m = (if length M = 1 then CHR ''0'' # M else M)"
proof -
  from len12_cases [OF assms(2)] show ?thesis
  proof (elim disjE exE)
    fix a assume M: "M = [a]"
    with assms(1) have dg: "isDigit a" by (simp add: isDigits_def)
    from assms(1,3) M have m: "m = digitVal a" by (simp add: parseInt_digits)
    with digitVal_lt [OF dg] have "m < 100" "m div 10 = 0" "m mod 10 = digitVal a" by simp_all
    with pad2_2 [of m] dg M show ?thesis by (simp add: digitChar_digitVal digitChar_0)
  next
    fix a b assume M: "M = [a, b]"
    with assms(1) have dg: "isDigit a" "isDigit b" by (simp_all add: isDigits_def)
    from assms(1,3) M have m: "m = 10 * digitVal a + digitVal b" by (simp add: parseInt_digits)
    with digitVal_lt [OF dg(1)] digitVal_lt [OF dg(2)]
    have "m < 100" "m div 10 = digitVal a" "m mod 10 = digitVal b" by simp_all
    with pad2_2 [of m] dg M show ?thesis by (simp add: digitChar_digitVal)
  qed
qed

text \<open>
  The three numeric forms of a date whose components are in range normalise to the rendering
  of the values, and the order of two such renderings is the order of the calendar.
\<close>

lemma parse_numeric:
  assumes "inRange D M Y d m y" "numericForm s D M Y"
  shows "parseAndFormatDate newDate s = Return (Some (formatYMD y m d))"
proof -
  from assms(1) have D: "isDigits D" "length D = 1 \<or> length D = 2"
      and M: "isDigits M" "length M = 1 \<or> length M = 2"
      and Y: "isDigits Y" "length Y = 4"
      and v: "parseInt D = Some d" "parseInt M = Some m" "parseInt Y = Some y"
      and r: "1900 < y" "1 \<le> m" "m \<le> 12" "1 \<le> d" "d \<le> 31"
    by (simp_all add: inRange_def)
  from D M Y have ne: "D \<noteq> []" "M \<noteq> []" "Y \<noteq> []" by auto
  have rc: "rangeChecked D M Y = Return (Some (formatYMD y m d))"
    using v r by (simp add: rangeChecked_def)
  let ?a = "D @ ''.'' @ M @ ''.'' @ Y"
  let ?b = "Y @ ''-'' @ M @ ''-'' @ D"
  let ?c = "M @ ''/'' @ D @ ''/'' @ Y"
  have ta: "trim ?a = ?a"
    using isDigits_hd_last [OF D(1) ne(1)] isDigits_hd_last [OF Y(1) ne(3)] ne
    by (intro trim_id) (simp_all add: digit_not_space)
  have tb: "trim ?b = ?b"
    using isDigits_hd_last [OF D(1) ne(1)] isDigits_hd_last [OF Y(1) ne(3)] ne
    by (intro trim_id) (simp_all add: digit_not_space)
  have tc: "trim ?c = ?c"
    using isDigits_hd_last [OF M(1) ne(2)] isDigits_hd_last [OF Y(1) ne(3)] ne
    by (intro trim_id) (simp_all add: digit_not_space)
  have ma: "match_dot ?a = Some (D, M, Y)" by (rule match_dot_dot [OF D M Y])
  have mb: "match_iso ?b = Some (Y, M, D)" by (rule match_iso_iso [OF D M Y])
  have mc: "match_slash ?c = Some (M, D, Y)" by (rule match_slash_slash [OF D M Y])
  note xb = iso_excl [OF mb] and xc = slash_excl [OF mc]
  have a: "parseAndFormatDate newDate ?a = Return (Some (formatYMD y m d))"
    using ne by (simp only: parseAndFormatDate_def Let_def ta tryDot_def ma) (simp add: rc)
  have b: "parseAndFormatDate newDate ?b = Return (Some (formatYMD y m d))"
    using ne
    by (simp only: parseAndFormatDate_def Let_def tb tryDot_def tryIso_def mb xb) (simp add: rc)
  have c: "parseAndFormatDate newDate ?c = Return (Some (formatYMD y m d))"
    using ne
    by (simp only: parseAndFormatDate_def Let_def tc tryDot_def tryIso_def trySlash_def mc xc) (simp add: rc)
  from assms(2) a b c show ?thesis unfolding numericForm_def by (elim disjE) simp_all
qed



text \<open>
  C2: the Date Normalizer maps the three textual forms of one calendar date to the canonical
  string of that date. For digit strings \<open>D\<close>, \<open>M\<close> of one or two digits and \<open>Y\<close> of four digits
  whose values pass the range checks, \<open>D.M.Y\<close>, \<open>Y-M-D\<close> and \<open>M/D/Y\<close> all normalise to the
  year \<open>Y\<close>, a dash, the month \<open>M\<close> with a leading zero if it has one digit, a dash, and the
  day \<open>D\<close> with a leading zero if it has one digit: ten code units, whatever the generic
  parser of the engine does. At 25, 12, 2025 this is \<open>2025-12-25\<close> for all three.
\<close>

theorem normalizer_same_date:
  assumes D: "isDigits D" "length D = 1 \<or> length D = 2"
      and M: "isDigits M" "length M = 1 \<or> length M = 2"
      and Y: "isDigits Y" "length Y = 4"
      and v: "parseInt D = Some d" "parseInt M = Some m" "parseInt Y = Some y"
      and r: "1900 < y" "1 \<le> m" "m \<le> 12" "1 \<le> d" "d \<le> 31"
  shows "parseAndFormatDate newDate (D @ ''.'' @ M @ ''.'' @ Y)
           = Return (Some (Y @ ''-'' @ (if length M = 1 then CHR ''0'' # M else M)
                             @ ''-'' @ (if length D = 1 then CHR ''0'' # D else D)))
       \<and> parseAndFormatDate newDate (Y @ ''-'' @ M @ ''-'' @ D)
           = Return (Some (Y @ ''-'' @ (if length M = 1 then CHR ''0'' # M else M)
                             @ ''-'' @ (if length D = 1 then CHR ''0'' # D else D)))
       \<and> parseAndFormatDate newDate (M @ ''/'' @ D @ ''/'' @ Y)
           = Return (Some (Y @ ''-'' @ (if length M = 1 then CHR ''0'' # M else M)
                             @ ''-'' @ (if length D = 1 then CHR ''0'' # D else D)))
       \<and> length (Y @ ''-'' @ (if length M = 1 then CHR ''0'' # M else M)
                    @ ''-'' @ (if length D = 1 then CHR ''0'' # D else D)) = 10"
proof -
  have ir: "inRange D M Y d m y" using D M Y v r by (simp add: inRange_def)
  have fy: "natToString y = Y"
    using r(1) by (intro year_roundtrip [OF Y v(3)]) simp
  have fm: "pad2 m = (if length M = 1 then CHR ''0'' # M else M)"
    by (rule pad_roundtrip [OF M v(2)])
  have fd: "pad2 d = (if length D = 1 then CHR ''0'' # D else D)"
    by (rule pad_roundtrip [OF D v(1)])
  have canon: "formatYMD y m d = Y @ ''-'' @ (if length M = 1 then CHR ''0'' # M else M)
                             @ ''-'' @ (if length D = 1 then CHR ''0'' # D else D)"
    unfolding formatYMD_def fy fm fd ..
  have a: "parseAndFormatDate newDate (D @ ''.'' @ M @ ''.'' @ Y) = Return (Some (formatYMD y m d))"
    by (rule parse_numeric [OF ir]) (simp add: numericForm_def)
  have b: "parseAndFormatDate newDate (Y @ ''-'' @ M @ ''-'' @ D) = Return (Some (formatYMD y m d))"
    by (rule parse_numeric [OF ir]) (simp add: numericForm_def)
  have c: "parseAndFormatDate newDate (M @ ''/'' @ D @ ''/'' @ Y) = Return (Some (formatYMD y m d))"
    by (rule parse_numeric [OF ir]) (simp add: numericForm_def)
  have l: "length (Y @ ''-'' @ (if length M = 1 then CHR ''0'' # M else M)
                    @ ''-'' @ (if length D = 1 then CHR ''0'' # D else D)) = 10"
    using Y(2) M(2) D(2) by auto
  from a b c l show ?thesis unfolding canon by (intro conjI)
qed

theorem normalizer_same_date_witness:
  "isDigits ''25'' \<and> isDigits ''12'' \<and> isDigits ''2025''
   \<and> parseInt ''25'' = Some 25 \<and> parseInt ''12'' = Some 12 \<and> parseInt ''2025'' = Some 2025
   \<and> parseAndFormatDate (\<lambda>s. Return InvalidDate) ''25.12.2025'' = Return (Some ''2025-12-25'')
   \<and> parseAndFormatDate (\<lambda>s. Return InvalidDate) ''2025-12-25'' = Return (Some ''2025-12-25'')
   \<and> parseAndFormatDate (\<lambda>s. Return InvalidDate) ''12/25/2025'' = Return (Some ''2025-12-25'')
   \<and> isDigits ''5'' \<and> isDigits ''1'' \<and> isDigits ''1999''
   \<and> parseInt ''5'' = Some 5 \<and> parseInt ''1'' = Some 1 \<and> parseInt ''1999'' = Some 1999
   \<and> parseAndFormatDate (\<lambda>s. Return InvalidDate) ''5.1.1999'' = Return (Some ''1999-01-05'')
   \<and> parseAndFormatDate (\<lambda>s. Return InvalidDate) ''1999-1-5'' = Return (Some ''1999-01-05'')
   \<and> parseAndFormatDate (\<lambda>s. Return InvalidDate) ''1/5/1999'' = Return (Some ''1999-01-05'')"
proof -
  have h: "isDigits ''25''" "isDigits ''12''" "isDigits ''2025''"
    "parseInt ''25'' = Some 25" "parseInt ''12'' = Some 12" "parseInt ''2025'' = Some 2025"
    "isDigits ''5''" "isDigits ''1''" "isDigits ''1999''"
    "parseInt ''5'' = Some 5" "parseInt ''1'' = Some 1" "parseInt ''1999'' = Some 1999"
    by code_simp+
  show ?thesis
    using normalizer_same_date [of "''25''" "''12''" "''2025''" 25 12 2025 "\<lambda>s. Return InvalidDate"]
      normalizer_same_date [of "''5''" "''1''" "''1999''" 5 1 1999 "\<lambda>s. Return InvalidDate"] h
    by simp
qed

text \<open>
  C7: the Date Normalizer always returns and never throws. A string in one of the three
  numeric forms whose components fail the range checks (\<open>1900 < y\<close>, \<open>1 \<le> m \<le> 12\<close>,
  \<open>1 \<le> d \<le> 31\<close>) is handed on: no other numeric form matches it, so the result is that of
  the generic parse. When every strategy fails the result is \<^verbatim>\<open>null\<close>.
\<close>

theorem parseAndFormatDate_total:
  "(\<exists>r. parseAndFormatDate newDate v = Return r)
   \<and> (v \<noteq> [] \<and> trim v \<noteq> [] \<and>
        (match_dot (trim v) = Some (g1, g2, g3) \<and> rangeChecked g1 g2 g3 = Normal
         \<or> match_iso (trim v) = Some (g1, g2, g3) \<and> rangeChecked g3 g2 g1 = Normal
         \<or> match_slash (trim v) = Some (g1, g2, g3) \<and> rangeChecked g2 g1 g3 = Normal)
        \<longrightarrow> parseAndFormatDate newDate v = seq (tryGeneric newDate (trim v)) (Return None))
   \<and> (rangeChecked ds ms ys = Normal \<longleftrightarrow>
        \<not> (\<exists>d m y. parseInt ds = Some d \<and> parseInt ms = Some m \<and> parseInt ys = Some y
              \<and> 1900 < y \<and> 1 \<le> m \<and> m \<le> 12 \<and> 1 \<le> d \<and> d \<le> 31))
   \<and> (tryDot (trim v) = Normal \<and> tryIso (trim v) = Normal \<and> trySlash (trim v) = Normal
        \<and> (\<forall>y m d. newDate (trim v) \<noteq> Return (ValidDate y m d))
        \<longrightarrow> parseAndFormatDate newDate v = Return None)"
  using parse_returns [of newDate v] range_fail_falls_through [of v g1 g2 g3 newDate]
    rangeChecked_Normal [of ds ms ys] all_fail_null [of v newDate] tryGeneric_Normal [of newDate "trim v"]
  by blast

theorem parseAndFormatDate_total_witness:
  "match_dot (trim ''32.12.2025'') = Some (''32'', ''12'', ''2025'')
   \<and> rangeChecked ''32'' ''12'' ''2025'' = Normal
   \<and> parseAndFormatDate (\<lambda>s. Return InvalidDate) ''32.12.2025'' = Return None
   \<and> parseAndFormatDate (\<lambda>s. Throw) ''not-a-date'' = Return None"
proof -
  have h: "match_dot (trim ''32.12.2025'') = Some (''32'', ''12'', ''2025'')"
    "rangeChecked ''32'' ''12'' ''2025'' = Normal" "trim ''32.12.2025'' \<noteq> []"
    "tryDot (trim ''not-a-date'') = Normal" "tryIso (trim ''not-a-date'') = Normal"
    "trySlash (trim ''not-a-date'') = Normal"
    by code_simp+
  have g: "seq (tryGeneric (\<lambda>s. Return InvalidDate) s) (Return None) = Return None" for s
    by (simp add: tryGeneric_def)
  show ?thesis
    using parseAndFormatDate_total [of "\<lambda>s. Return InvalidDate" "''32.12.2025''" "''32''" "''12''" "''2025''"
        "''32''" "''12''" "''2025''"]
      parseAndFormatDate_total [of "\<lambda>s. Throw" "''not-a-date''" "''32''" "''12''" "''2025''"
        "''32''" "''12''" "''2025''"] h
    by (simp add: g)
qed

subsection \<open>Listing\<close>






































subsection \<open>Event API and blob deletion\<close>













lemma uploadToGcs_docs: "docs (snd (uploadToGcs e w f)) = docs w \<and> sessions (snd (uploadToGcs e w f)) = sessions w"
  by (simp add: uploadToGcs_def Let_def)


lemma deleteFromGcs_docs:
  "docs (snd (deleteFromGcs e w v)) = docs w \<and> sessions (snd (deleteFromGcs e w v)) = sessions w"
  by (simp add: deleteFromGcs_def Let_def split: option.splits fvalue.splits)

lemma replaceImage_docs:
  "docs (snd (replaceImage e w d f)) = docs w \<and> sessions (snd (replaceImage e w d f)) = sessions w"
proof (cases f)
  case None
  then show ?thesis by (simp add: replaceImage_def)
next
  case (Some u)
  let ?del = "if truthyField (d ''imageUrl'') then deleteFromGcs e w (d ''imageUrl'') else ((Resolved (), []), w)"
  obtain r out w' where del: "?del = ((r, out), w')" by (metis prod.exhaust)
  then have w': "docs w' = docs w \<and> sessions w' = sessions w"
    using deleteFromGcs_docs [of e w "d ''imageUrl''"] by (auto split: if_splits)
  show ?thesis
  proof (cases r)
    case (Rejected msg)
    with Some del w' show ?thesis by (simp add: replaceImage_def)
  next
    case (Resolved x)
    obtain r2 w2 where up: "uploadToGcs e w' u = (r2, w2)" by (cases "uploadToGcs e w' u")
    then have "docs w2 = docs w' \<and> sessions w2 = sessions w'"
      using uploadToGcs_docs [of e w' u] by simp
    with Some del w' Resolved up show ?thesis by (cases r2) (simp_all add: replaceImage_def)
  qed
qed




lemma storeImage_docs: "docs (snd (storeImage e w f)) = docs w"
proof (cases f)
  case None
  then show ?thesis by (simp add: storeImage_def)
next
  case (Some u)
  obtain r w' where up: "uploadToGcs e w u = (r, w')" by (cases "uploadToGcs e w u")
  with uploadToGcs_docs [of e w u] Some show ?thesis
    by (cases r) (simp_all add: storeImage_def)
qed

lemma storeImage_resolves:
  assumes "f = None \<or> \<not> writeStreamFails e \<and> \<not> makePublicFails e"
  shows "\<exists>img w1. storeImage e w f = (Resolved img, w1)"
  using assms by (cases f) (auto simp: storeImage_def uploadToGcs_def Let_def)

lemma deleteFromGcs_string: "\<exists>out w'. deleteFromGcs e w (Some (FString url)) = ((Resolved (), out), w')"
  by (auto simp: deleteFromGcs_def truthyField_def Let_def)

lemma replaceImage_resolves:
  assumes "f = None \<or> \<not> writeStreamFails e \<and> \<not> makePublicFails e \<and> (\<forall>t. d ''imageUrl'' \<noteq> Some (FTimestamp t))"
  shows "\<exists>img w1. replaceImage e w d f = (Resolved img, w1)"
proof (cases f)
  case None
  then show ?thesis by (simp add: replaceImage_def)
next
  case (Some u)
  with assms have ok: "\<not> writeStreamFails e" "\<not> makePublicFails e" "\<forall>t. d ''imageUrl'' \<noteq> Some (FTimestamp t)"
    by auto
  let ?del = "if truthyField (d ''imageUrl'') then deleteFromGcs e w (d ''imageUrl'') else ((Resolved (), []), w)"
  have "\<exists>out w'. ?del = ((Resolved (), out), w')"
  proof (cases "truthyField (d ''imageUrl'')")
    case True
    with ok(3) obtain url where "d ''imageUrl'' = Some (FString url)"
      by (auto simp: truthyField_def split: option.splits fvalue.splits)
    with True deleteFromGcs_string [of e w url] show ?thesis by simp
  next
    case False
    then show ?thesis by simp
  qed
  then obtain out w' where del: "?del = ((Resolved (), out), w')" by blast
  from ok have "\<exists>url w2. uploadToGcs e w' u = (Resolved url, w2)"
    by (simp add: uploadToGcs_def Let_def)
  then obtain url w2 where "uploadToGcs e w' u = (Resolved url, w2)" by blast
  with Some del show ?thesis by (simp add: replaceImage_def)
qed

lemma createEvent_docs_on_error:
  assumes "reqBody req = Some eventData"
      and "conv (orElse (bodyField eventData FIELD_DATE) [] @ ''T00:00:00Z'') = None"
  shows "docs (snd (createEvent conv e w req)) = docs w"
proof -
  obtain r w1 where si: "storeImage e w (reqFile req) = (r, w1)"
    by (cases "storeImage e w (reqFile req)")
  with storeImage_docs [of e w "reqFile req"] have "docs w1 = docs w" by simp
  with assms si show ?thesis
    by (cases r) (simp_all add: createEvent_def)
qed

lemma updateEvent_docs_on_error:
  assumes "reqBody req = Some eventData"
      and "conv (orElse (bodyField eventData FIELD_DATE) [] @ ''T00:00:00Z'') = None"
  shows "docs (snd (updateEvent conv e w req)) = docs w"
proof (cases "docs w (paramId req)")
  case None
  with assms show ?thesis by (simp add: updateEvent_def Let_def)
next
  case (Some doc)
  obtain r w1 where ri: "replaceImage e w doc (reqFile req) = (r, w1)"
    by (cases "replaceImage e w doc (reqFile req)")
  with replaceImage_docs [of e w doc "reqFile req"] have "docs w1 = docs w" by simp
  with assms Some ri show ?thesis
    by (cases r) (simp_all add: updateEvent_def Let_def)
qed

text \<open>
  C4, as amended: in the document-store revisions a create or update request whose title and
  date are given and whose date text does not convert to a timestamp is answered with 400
  and the message \<open>Invalid date format. Please use YYYY-MM-DD.\<close>, which is not the message
  for a missing field, and the collection of events stays as it was. For the answer to be
  that 400 the request has to reach the conversion: an update needs a readable, existing
  record, and an attached image has to upload. The spreadsheet revision checks no date.
\<close>

theorem bad_date_rejected:
  assumes "reqBody req = Some eventData"
      and "given (bodyField eventData FIELD_TITLE)" "given (bodyField eventData FIELD_DATE)"
      and "conv (orElse (bodyField eventData FIELD_DATE) [] @ ''T00:00:00Z'') = None"
  shows "(reqFile req = None \<or> \<not> writeStreamFails e \<and> \<not> makePublicFails e \<longrightarrow>
            fst (createEvent conv e w req)
              = (400, Result False ''Invalid date format. Please use YYYY-MM-DD.''))
       \<and> docs (snd (createEvent conv e w req)) = docs w
       \<and> (paramId req \<noteq> [] \<and> \<not> docGetFails e \<and> docs w (paramId req) \<noteq> None \<longrightarrow>
            updateEventPlain conv e w req
              = ((400, Result False ''Invalid date format. Please use YYYY-MM-DD.''), w))
       \<and> (paramId req \<noteq> [] \<and> \<not> docGetFails e
          \<and> (\<exists>doc. docs w (paramId req) = Some doc
                \<and> (reqFile req = None \<or> \<not> writeStreamFails e \<and> \<not> makePublicFails e
                      \<and> (\<forall>t. doc ''imageUrl'' \<noteq> Some (FTimestamp t)))) \<longrightarrow>
            fst (updateEvent conv e w req)
              = (400, Result False ''Invalid date format. Please use YYYY-MM-DD.''))
       \<and> docs (snd (updateEvent conv e w req)) = docs w
       \<and> ''Invalid date format. Please use YYYY-MM-DD.'' \<noteq> ''Title and Date are required fields.''
       \<and> ''Invalid date format. Please use YYYY-MM-DD.'' \<noteq> ''Invalid data or Title/Date missing.''"
proof -
  have c: "fst (createEvent conv e w req) = (400, Result False ''Invalid date format. Please use YYYY-MM-DD.'')"
    if "reqFile req = None \<or> \<not> writeStreamFails e \<and> \<not> makePublicFails e"
  proof -
    from storeImage_resolves [OF that, of w] obtain img w1
      where "storeImage e w (reqFile req) = (Resolved img, w1)" by blast
    with assms show ?thesis by (simp add: createEvent_def)
  qed
  from assms(2) assms(1) have ne: "eventData \<noteq> []" by (auto simp: given_def bodyField_def)
  have p: "updateEventPlain conv e w req = ((400, Result False ''Invalid date format. Please use YYYY-MM-DD.''), w)"
    if "paramId req \<noteq> [] \<and> \<not> docGetFails e \<and> docs w (paramId req) \<noteq> None"
    using that assms ne by (auto simp: updateEventPlain_def Let_def)
  have u: "fst (updateEvent conv e w req) = (400, Result False ''Invalid date format. Please use YYYY-MM-DD.'')"
    if h: "paramId req \<noteq> [] \<and> \<not> docGetFails e
          \<and> (\<exists>doc. docs w (paramId req) = Some doc
                \<and> (reqFile req = None \<or> \<not> writeStreamFails e \<and> \<not> makePublicFails e
                      \<and> (\<forall>t. doc ''imageUrl'' \<noteq> Some (FTimestamp t))))"
  proof -
    from h obtain doc where d: "docs w (paramId req) = Some doc"
      and f: "reqFile req = None \<or> \<not> writeStreamFails e \<and> \<not> makePublicFails e
                      \<and> (\<forall>t. doc ''imageUrl'' \<noteq> Some (FTimestamp t))" by blast
    from replaceImage_resolves [of "reqFile req" e doc w] f obtain img w1
      where "replaceImage e w doc (reqFile req) = (Resolved img, w1)" by blast
    with assms h d show ?thesis by (simp add: updateEvent_def Let_def)
  qed
  have dc: "docs (snd (createEvent conv e w req)) = docs w"
    using createEvent_docs_on_error [of req eventData conv e w] assms(1,4) by simp
  have du: "docs (snd (updateEvent conv e w req)) = docs w"
    using updateEvent_docs_on_error [of req eventData conv e w] assms(1,4) by simp
  from c p u dc du show ?thesis by simp
qed

theorem bad_date_rejected_witness:
  "reqBody (meetingRequest\<lparr>reqBody := Some [(''title'', ''Meeting''), (''eventDate'', ''soon'')]\<rparr>)
     = Some [(''title'', ''Meeting''), (''eventDate'', ''soon'')]
   \<and> juneOnly (''soon'' @ ''T00:00:00Z'') = None
   \<and> fst (createEvent juneOnly calmEnv someWorld
             (meetingRequest\<lparr>reqBody := Some [(''title'', ''Meeting''), (''eventDate'', ''soon'')]\<rparr>))
       = (400, Result False ''Invalid date format. Please use YYYY-MM-DD.'')
   \<and> fst (updateEvent juneOnly calmEnv someWorld
             (meetingRequest\<lparr>reqBody := Some [(''title'', ''Meeting''), (''eventDate'', ''soon'')]\<rparr>))
       = (400, Result False ''Invalid date format. Please use YYYY-MM-DD.'')"
proof -
  let ?b = "[(''title'', ''Meeting''), (''eventDate'', ''soon'')]"
  let ?r = "meetingRequest\<lparr>reqBody := Some ?b\<rparr>"
  have h: "reqBody ?r = Some ?b" "given (bodyField ?b FIELD_TITLE)" "given (bodyField ?b FIELD_DATE)"
    "juneOnly (orElse (bodyField ?b FIELD_DATE) [] @ ''T00:00:00Z'') = None"
    "juneOnly (''soon'' @ ''T00:00:00Z'') = None"
    "reqFile ?r = None" "paramId ?r \<noteq> []" "\<not> docGetFails calmEnv"
    "docs someWorld (paramId ?r) = Some storedEvent"
    by (simp_all add: meetingRequest_def given_def bodyField_def FIELD_TITLE_def FIELD_DATE_def
        orElse_def juneOnly_def calmEnv_def someWorld_def)
  from bad_date_rejected [of "?r" "?b" juneOnly calmEnv someWorld] h show ?thesis by simp
qed

text \<open>
  C4 as stated fails in the spreadsheet revision: a create request whose date text the Date
  Normalizer cannot parse is answered with 201 and its row is appended to the sheet.
\<close>

theorem spreadsheet_accepts_any_date:
  "parseAndFormatDate neverValid ''not-a-date'' = Return None
   \<and> appendEvent ''2025-06-01T12:00:00.000Z'' False []
        (Some [(''Wann findet der Event statt?'', ''not-a-date''), (''Event Titel'', ''Party'')])
     = ((201, Result True (''Event erfolgreich hinzugef'' @ [CHR 0xFC] @ ''gt.'')),
        [[''not-a-date'', ''Party'', [], [], [], [], [], [], [], ''2025-06-01T12:00:00.000Z'']])"
  by code_simp






text \<open>
  C6: the login succeeds exactly when the secret is configured, the supplied password is a
  string equal to it, and the session could be saved; the session saved under the id of the
  request is then marked authenticated, with the role admin and a cookie that expires one
  hour (3600000 ms) after the request. With a configured secret and any other password the
  answer is 401 and nothing is saved. With an unconfigured secret the answer is 500 with the
  fixed text \<open>Server configuration error.\<close>, whatever the password, and nothing is saved.
\<close>

theorem login_outcomes:
  "(fst (login pw e w sid p) = (200, Result True ''Login successful.'')
      \<longleftrightarrow> (\<exists>s. pw = Some s \<and> s \<noteq> [] \<and> p = JStr s) \<and> \<not> sessionSaveFails e)
   \<and> ((\<exists>s. pw = Some s \<and> s \<noteq> [] \<and> p = JStr s) \<and> \<not> sessionSaveFails e \<longrightarrow>
        snd (login pw e w sid p) = w\<lparr>sessions := (sessions w)(sid \<mapsto>
            \<lparr>authenticated = True, userRole = Some ''admin'', cookieExpires = now e + 3600000\<rparr>)\<rparr>)
   \<and> (\<not> unconfigured pw \<and> (\<forall>s. pw = Some s \<longrightarrow> p \<noteq> JStr s) \<longrightarrow>
        login pw e w sid p = ((401, Result False ''Invalid password.''), w))
   \<and> (unconfigured pw \<longrightarrow>
        login pw e w sid p = ((500, Result False ''Server configuration error.''), w))"
  by (cases pw; cases p) (auto simp: login_def unconfigured_def cookieMaxAge_def)

theorem login_outcomes_witness:
  "\<not> sessionSaveFails calmEnv
   \<and> fst (login (Some ''hunter2'') calmEnv someWorld ''s1'' (JStr ''hunter2''))
       = (200, Result True ''Login successful.'')
   \<and> sessions (snd (login (Some ''hunter2'') calmEnv someWorld ''s1'' (JStr ''hunter2''))) ''s1''
       = Some \<lparr>authenticated = True, userRole = Some ''admin'', cookieExpires = 5000 + 3600000\<rparr>
   \<and> \<not> unconfigured (Some ''hunter2'')
   \<and> login (Some ''hunter2'') calmEnv someWorld ''s1'' (JStr ''hunter3'')
       = ((401, Result False ''Invalid password.''), someWorld)
   \<and> unconfigured None
   \<and> login None calmEnv someWorld ''s1'' (JStr ''hunter2'')
       = ((500, Result False ''Server configuration error.''), someWorld)"
proof -
  have h: "\<not> sessionSaveFails calmEnv" "now calmEnv = 5000" "\<not> unconfigured (Some ''hunter2'')"
    "unconfigured None"
    by (simp_all add: calmEnv_def unconfigured_def)
  from login_outcomes [of "Some ''hunter2''" calmEnv someWorld "''s1''" "JStr ''hunter2''"]
    login_outcomes [of "Some ''hunter2''" calmEnv someWorld "''s1''" "JStr ''hunter3''"]
    login_outcomes [of None calmEnv someWorld "''s1''" "JStr ''hunter2''"] h
  show ?thesis by simp
qed

text \<open>
  C8: for a reference string that does not start with the prefix of this bucket,
  \<^verbatim>\<open>deleteFromGcs\<close> only warns and changes nothing. For every reference string its promise
  resolves. A deletion that was attempted and failed is logged as an error and changes
  nothing. Deleting an event whose image reference is a string therefore succeeds whenever
  the document store does, whatever happens to the blob.
\<close>

theorem deleteFromGcs_swallows:
  "(\<not> startsWith url gcsPrefix \<longrightarrow>
      deleteFromGcs e w (Some (FString url))
        = ((Resolved (), [Warn ''Invalid or non-matching GCS URL provided for deletion'']), w))
   \<and> (\<exists>out w'. deleteFromGcs e w (Some (FString url)) = ((Resolved (), out), w'))
   \<and> (startsWith url gcsPrefix \<and> drop (length gcsPrefix) url \<noteq> []
        \<and> (blobDeleteFails e \<or> blobs w (drop (length gcsPrefix) url) = None) \<longrightarrow>
      deleteFromGcs e w (Some (FString url))
        = ((Resolved (), [Info ''Attempting to delete GCS object'',
                          ErrorLine ''Failed to delete GCS object'']), w))
   \<and> (paramId req \<noteq> [] \<and> \<not> docGetFails e \<and> \<not> docDeleteFails e
        \<and> docs w (paramId req) = Some d \<and> d ''imageUrl'' = Some (FString url) \<longrightarrow>
      fst (deleteEvent e w req) = (200, Result True ''Event deleted successfully.'')
      \<and> docs (snd (deleteEvent e w req)) (paramId req) = None)"
proof (intro conjI impI)
  show "\<not> startsWith url gcsPrefix \<Longrightarrow>
      deleteFromGcs e w (Some (FString url))
        = ((Resolved (), [Warn ''Invalid or non-matching GCS URL provided for deletion'']), w)"
    by (simp add: deleteFromGcs_def truthyField_def)
  show "\<exists>out w'. deleteFromGcs e w (Some (FString url)) = ((Resolved (), out), w')"
    by (rule deleteFromGcs_string)
  show "startsWith url gcsPrefix \<and> drop (length gcsPrefix) url \<noteq> []
        \<and> (blobDeleteFails e \<or> blobs w (drop (length gcsPrefix) url) = None) \<Longrightarrow>
      deleteFromGcs e w (Some (FString url))
        = ((Resolved (), [Info ''Attempting to delete GCS object'',
                          ErrorLine ''Failed to delete GCS object'']), w)"
    by (auto simp: deleteFromGcs_def truthyField_def Let_def startsWith_def)
next
  assume a: "paramId req \<noteq> [] \<and> \<not> docGetFails e \<and> \<not> docDeleteFails e
        \<and> docs w (paramId req) = Some d \<and> d ''imageUrl'' = Some (FString url)"
  from deleteFromGcs_string [of e w url] obtain out w' where
    del: "deleteFromGcs e w (Some (FString url)) = ((Resolved (), out), w')" by blast
  then have "docs w' = docs w" using deleteFromGcs_docs [of e w "Some (FString url)"] by simp
  with a del have r: "deleteEvent e w req = (if truthyField (Some (FString url))
       then ((200, Result True ''Event deleted successfully.''), w'\<lparr>docs := (docs w)(paramId req := None)\<rparr>)
       else ((200, Result True ''Event deleted successfully.''), w\<lparr>docs := (docs w)(paramId req := None)\<rparr>))"
    by (simp add: deleteEvent_def Let_def)
  then show "fst (deleteEvent e w req) = (200, Result True ''Event deleted successfully.'')"
    by simp
  from r show "docs (snd (deleteEvent e w req)) (paramId req) = None"
    by simp
qed

theorem deleteFromGcs_swallows_witness:
  "\<not> startsWith ''https://example.com/x.png'' gcsPrefix
   \<and> deleteFromGcs calmEnv someWorld (Some (FString ''https://example.com/x.png''))
       = ((Resolved (), [Warn ''Invalid or non-matching GCS URL provided for deletion'']), someWorld)
   \<and> startsWith (gcsPrefix @ ''1000-old.png'') gcsPrefix
   \<and> deleteFromGcs (calmEnv\<lparr>blobDeleteFails := True\<rparr>) someWorld (Some (FString (gcsPrefix @ ''1000-old.png'')))
       = ((Resolved (), [Info ''Attempting to delete GCS object'',
                         ErrorLine ''Failed to delete GCS object'']), someWorld)
   \<and> fst (deleteEvent (calmEnv\<lparr>blobDeleteFails := True\<rparr>) someWorld meetingRequest)
       = (200, Result True ''Event deleted successfully.'')"
proof -
  let ?e = "calmEnv\<lparr>blobDeleteFails := True\<rparr>"
  let ?u = "gcsPrefix @ ''1000-old.png''"
  have h: "\<not> startsWith ''https://example.com/x.png'' gcsPrefix"
    "startsWith ?u gcsPrefix" "drop (length gcsPrefix) ?u \<noteq> []" "blobDeleteFails ?e"
    "paramId meetingRequest \<noteq> []" "\<not> docGetFails ?e" "\<not> docDeleteFails ?e"
    "docs someWorld (paramId meetingRequest) = Some storedEvent"
    "storedEvent ''imageUrl'' = Some (FString ?u)"
    by (simp_all add: startsWith_def gcsPrefix_def GCS_BUCKET_NAME_def calmEnv_def
        meetingRequest_def someWorld_def storedEvent_def)
  from deleteFromGcs_swallows [of "''https://example.com/x.png''" calmEnv someWorld meetingRequest storedEvent]
    deleteFromGcs_swallows [of ?u ?e someWorld meetingRequest storedEvent] h
  show ?thesis by simp
qed


subsection \<open>Session Gate\<close>




subsection \<open>Blob names\<close>

text \<open>
  C9 fails on the code: two uploads in the same millisecond whose file names differ only
  in a space against an underscore get the same object name, and the second upload
  replaces the object of the first.
\<close>

theorem upload_collision:
  "uniqueFilename 1700000000000 ''a b.png'' = uniqueFilename 1700000000000 ''a_b.png''
   \<and> fst (uploadToGcs calmEnv someWorld
            \<lparr>originalname = ''a b.png'', buffer = ''first'', mimetype = ''image/png''\<rparr>)
     = fst (uploadToGcs calmEnv
            (snd (uploadToGcs calmEnv someWorld
                   \<lparr>originalname = ''a b.png'', buffer = ''first'', mimetype = ''image/png''\<rparr>))
            \<lparr>originalname = ''a_b.png'', buffer = ''second'', mimetype = ''image/png''\<rparr>)
   \<and> blobs (snd (uploadToGcs calmEnv
            (snd (uploadToGcs calmEnv someWorld
                   \<lparr>originalname = ''a b.png'', buffer = ''first'', mimetype = ''image/png''\<rparr>))
            \<lparr>originalname = ''a_b.png'', buffer = ''second'', mimetype = ''image/png''\<rparr>))
        (uniqueFilename (now calmEnv) ''a b.png'')
     = Some (''second'', ''image/png'')"
  by (simp add: uploadToGcs_def uniqueFilename_def replaceSpaces_def calmEnv_def Let_def)

subsection \<open>Password check\<close>

text \<open>
  C10: in POST /api/auth/check the configuration check comes before the format check of the
  body: with the shared secret unconfigured (undefined or empty), every request body gets the
  500 server-configuration error, also one whose password is missing or not a string; with a
  configured secret such a body gets 400.
\<close>

theorem authCheck_config_first:
  "(unconfigured pw \<longrightarrow> authCheck pw v = (500, Error ''Server configuration error.''))
   \<and> (\<not> unconfigured pw \<and> (\<forall>s. v \<noteq> JStr s) \<longrightarrow>
        authCheck pw v = (400, Error ''Password missing or invalid format.''))"
  by (cases v) (simp_all add: authCheck_def)

theorem authCheck_config_first_witness:
  "unconfigured None \<and> authCheck None (JNum 7) = (500, Error ''Server configuration error.'')
   \<and> \<not> unconfigured (Some ''s3cret'') \<and> (\<forall>s. JNum 7 \<noteq> JStr s)
   \<and> authCheck (Some ''s3cret'') (JNum 7) = (400, Error ''Password missing or invalid format.'')"
  using authCheck_config_first [of None "JNum 7"] authCheck_config_first [of "Some ''s3cret''" "JNum 7"]
  by (simp add: unconfigured_def)

end
